theory Spec2Isabelle
  imports Complex_Main "HOL-Library.AList"
begin

section \<open>Values, errors and the stack-abort discipline\<close>

text \<open>
  A \<open>coal.ID\<close> is a 12-byte object id.  The embedding keeps it as a natural number;
  \<open>0\<close> is the zero id (\<open>IsZero\<close>).
\<close>

type_synonym ID = nat

text \<open>
  The values a model field, a JSON attribute or a BSON document entry can hold.
  \<open>VNil\<close> is a nil pointer (\<open>*coal.ID\<close>, \<open>*time.Time\<close>) and a JSON/BSON null.
\<close>

datatype val =
    VNil
  | VStr string
  | VBool bool
  | VInt int
  | VTime nat
  | VID ID
  | VIDs "ID list"

text \<open>
  \<open>stack.Abort\<close> unwinds to the dispatch boundary with an error value.  An error is
  either a \<open>*jsonapi.Error\<close> carrying a status code and a detail, or any other Go
  error (\<open>fmt.Errorf\<close>, a storage error), which the boundary reports as an internal
  failure, or a runtime panic (failed type assertion, \<open>MustGet\<close>, \<open>coal.L\<close>).
\<close>

datatype err =
    JSONAPIError nat string
  | GoError string
  | Panic string

definition BadRequest :: "string \<Rightarrow> err" where
  "BadRequest detail = JSONAPIError 400 detail"

definition BadRequestPointer :: "string \<Rightarrow> string \<Rightarrow> err" where
  "BadRequestPointer detail pointer = JSONAPIError 400 (detail @ '' '' @ pointer)"

definition NotFound :: "string \<Rightarrow> err" where
  "NotFound detail = JSONAPIError 404 detail"

definition ErrorFromStatus :: "nat \<Rightarrow> string \<Rightarrow> err" where
  "ErrorFromStatus status detail = JSONAPIError status detail"

definition StatusOK :: nat where "StatusOK = 200"
definition StatusCreated :: nat where "StatusCreated = 201"
definition StatusNoContent :: nat where "StatusNoContent = 204"
definition StatusBadRequest :: nat where "StatusBadRequest = 400"
definition StatusUnauthorized :: nat where "StatusUnauthorized = 401"
definition StatusMethodNotAllowed :: nat where "StatusMethodNotAllowed = 405"
definition StatusConflict :: nat where "StatusConflict = 409"
definition StatusInternalServerError :: nat where "StatusInternalServerError = 500"

text \<open>
  The status class under which the dispatch boundary renders an abort: a
  \<open>*jsonapi.Error\<close> keeps its status, everything else is an internal error.
\<close>

fun statusOf :: "err \<Rightarrow> nat" where
  "statusOf (JSONAPIError status detail) = status"
| "statusOf (GoError msg) = 500"
| "statusOf (Panic msg) = 500"

section \<open>Model descriptors (coal.Meta)\<close>

datatype kind = KString | KBool | KInt | KTime | KOptTime | KID | KOptID | KIDs | KHas

record field =
  Name :: string
  Kind :: kind
  JSONKey :: string
  BSONField :: string
  Flags :: "string list"
  Optional :: bool
  ToOne :: bool
  ToMany :: bool
  HasOne :: bool
  HasMany :: bool
  RelName :: string
  RelType :: string
  RelInverse :: string

record meta =
  MetaName :: string
  PluralName :: string
  Collection :: string
  OrderedFields :: "field list"

text \<open>The lookup tables of a descriptor: by field name, by JSON key, by relationship name.\<close>

definition Fields :: "meta \<Rightarrow> string \<Rightarrow> field option" where
  "Fields mt name = find (\<lambda>f. Name f = name) (OrderedFields mt)"

definition Attributes :: "meta \<Rightarrow> string \<Rightarrow> field option" where
  "Attributes mt key = find (\<lambda>f. JSONKey f \<noteq> [] \<and> JSONKey f = key) (OrderedFields mt)"

definition Relationships :: "meta \<Rightarrow> string \<Rightarrow> field option" where
  "Relationships mt name = find (\<lambda>f. RelName f \<noteq> [] \<and> RelName f = name) (OrderedFields mt)"

definition AttributeList :: "meta \<Rightarrow> field list" where
  "AttributeList mt = filter (\<lambda>f. JSONKey f \<noteq> []) (OrderedFields mt)"

definition RelationshipList :: "meta \<Rightarrow> field list" where
  "RelationshipList mt = filter (\<lambda>f. RelName f \<noteq> []) (OrderedFields mt)"

text \<open>
  \<open>coal.L(model, flag, true)\<close>: the name of the field carrying the flag; with
  \<open>force\<close> it panics when there is none.
\<close>

definition L :: "meta \<Rightarrow> string \<Rightarrow> err + string" where
  "L mt flag =
     (case filter (\<lambda>f. flag \<in> set (Flags f)) (OrderedFields mt) of
        [f] \<Rightarrow> Inr (Name f)
      | _ \<Rightarrow> Inl (Panic (''coal: no or multiple fields flagged as '' @ flag)))"

text \<open>\<open>coal.F(model, field)\<close>: the BSON key of a field.\<close>

definition F :: "meta \<Rightarrow> string \<Rightarrow> string" where
  "F mt name = (case Fields mt name of Some f \<Rightarrow> BSONField f | None \<Rightarrow> [])"

section \<open>Models and the document store\<close>

text \<open>
  A model is its \<open>coal.Base\<close> (document id and lock counter \<open>_lk\<close>) and the values of
  its struct fields by field name.
\<close>

record model =
  DocID :: ID
  Lock :: nat
  Values :: "string \<Rightarrow> val"

fun zero :: "kind \<Rightarrow> val" where
  "zero KString = VStr []"
| "zero KBool = VBool False"
| "zero KInt = VInt 0"
| "zero KTime = VTime 0"
| "zero KOptTime = VNil"
| "zero KID = VID 0"
| "zero KOptID = VNil"
| "zero KIDs = VIDs []"
| "zero KHas = VNil"

text \<open>\<open>meta.Make()\<close>: a fresh model whose fields hold the zero value of their type.\<close>

definition Make :: "meta \<Rightarrow> model" where
  "Make mt = \<lparr> DocID = 0, Lock = 0,
     Values = (\<lambda>name. case Fields mt name of Some f \<Rightarrow> zero (Kind f) | None \<Rightarrow> VNil) \<rparr>"

text \<open>The value types a field of a kind accepts (\<open>stick.Set\<close> compares the types).\<close>

fun fits :: "kind \<Rightarrow> val \<Rightarrow> bool" where
  "fits KString (VStr s) = True"
| "fits KBool (VBool b) = True"
| "fits KInt (VInt i) = True"
| "fits KTime (VTime t) = True"
| "fits KOptTime (VTime t) = True"
| "fits KOptTime VNil = True"
| "fits KID (VID i) = True"
| "fits KOptID (VID i) = True"
| "fits KOptID VNil = True"
| "fits KIDs (VIDs ids) = True"
| "fits k v = False"

text \<open>
  \<open>stick.MustGet\<close> and \<open>stick.MustSet\<close>: both panic on an unknown field, the second
  also on a value of another type than the field.
\<close>

definition MustGet :: "meta \<Rightarrow> model \<Rightarrow> string \<Rightarrow> err + val" where
  "MustGet mt m name =
     (case Fields mt name of
        None \<Rightarrow> Inl (Panic (''stick: could not get field '' @ name))
      | Some f \<Rightarrow> Inr (Values m name))"

definition MustSet :: "meta \<Rightarrow> model \<Rightarrow> string \<Rightarrow> val \<Rightarrow> err + model" where
  "MustSet mt m name v =
     (case Fields mt name of
        None \<Rightarrow> Inl (Panic (''stick: could not set '' @ name))
      | Some f \<Rightarrow> if fits (Kind f) v then Inr (m\<lparr>Values := (Values m)(name := v)\<rparr>)
                  else Inl (Panic (''stick: could not set '' @ name)))"

text \<open>The type assertions \<open>.(string)\<close>, \<open>.([]coal.ID)\<close>, \<open>.(coal.ID)\<close>, \<open>.(*coal.ID)\<close>.\<close>

definition asString :: "val \<Rightarrow> err + string" where
  "asString v = (case v of VStr s \<Rightarrow> Inr s | _ \<Rightarrow> Inl (Panic ''interface conversion: not a string''))"

definition asIDs :: "val \<Rightarrow> err + ID list" where
  "asIDs v = (case v of VIDs ids \<Rightarrow> Inr ids | _ \<Rightarrow> Inl (Panic ''interface conversion: not []coal.ID''))"

definition asID :: "val \<Rightarrow> err + ID" where
  "asID v = (case v of VID i \<Rightarrow> Inr i | _ \<Rightarrow> Inl (Panic ''interface conversion: not coal.ID''))"

definition asOptID :: "val \<Rightarrow> err + ID option" where
  "asOptID v = (case v of VID i \<Rightarrow> Inr (Some i) | VNil \<Rightarrow> Inr None
                | _ \<Rightarrow> Inl (Panic ''interface conversion: not *coal.ID''))"

text \<open>
  The database: the documents of every collection in insertion order, the unique
  single-field indexes as pairs of collection and BSON key, the ids that
  \<open>coal.New()\<close> hands out (an endless supply and the number already used), and the
  clock read by \<open>time.Now()\<close>.
\<close>

record world =
  Colls :: "string \<Rightarrow> model list"
  Unique :: "(string \<times> string) list"
  Supply :: "nat \<Rightarrow> ID"
  Used :: nat
  Now :: nat

text \<open>
  A step of the pipeline runs on the world and either aborts with an error or
  yields a value; both leave a world behind.
\<close>

type_synonym 'a step = "world \<Rightarrow> (err + 'a) \<times> world"

definition ok :: "'a \<Rightarrow> 'a step" where
  "ok x w = (Inr x, w)"

definition abort :: "err \<Rightarrow> 'a step" where
  "abort e w = (Inl e, w)"

definition andThen :: "'a step \<Rightarrow> ('a \<Rightarrow> 'b step) \<Rightarrow> 'b step" where
  "andThen f g w = (case f w of (Inl e, w') \<Rightarrow> (Inl e, w') | (Inr x, w') \<Rightarrow> g x w')"

text \<open>\<open>stack.AbortIf\<close> on a value computed without touching the world.\<close>

definition abortIf :: "err + 'a \<Rightarrow> 'a step" where
  "abortIf r w = (r, w)"

text \<open>\<open>coal.New()\<close> draws the next id of the supply.\<close>

definition New :: "ID step" where
  "New w = (Inr (Supply w (Used w)), w\<lparr>Used := Suc (Used w)\<rparr>)"

subsection \<open>Queries\<close>

text \<open>
  A \<open>bson.M\<close> of field conditions: a key is matched against a value or against the
  members of an \<open>$in\<close> list.  A query is the conjunction (\<open>$and\<close>) of such maps.
\<close>

datatype cond = Eq val | In "val list"

type_synonym bsonM = "(string \<times> cond) list"

type_synonym query = "bsonM list"

text \<open>
  The value a stored document shows under a query key.  The driver sees BSON keys;
  the manager's translator also accepts field names, so a key stands for the first
  field that has it as its name or as its BSON key.
\<close>

definition keyField :: "meta \<Rightarrow> string \<Rightarrow> field option" where
  "keyField mt k =
     find (\<lambda>f. Name f = k \<or> (BSONField f \<noteq> [] \<and> BSONField f = k)) (OrderedFields mt)"

definition docGet :: "meta \<Rightarrow> model \<Rightarrow> string \<Rightarrow> val" where
  "docGet mt d k =
     (if k = ''_id'' then VID (DocID d)
      else if k = ''_lk'' then VInt (int (Lock d))
      else (case keyField mt k of
              Some f \<Rightarrow> Values d (Name f)
            | None \<Rightarrow> VNil))"

text \<open>
  MongoDB matching: equality also holds when the stored value is an array that has
  the operand as a member; \<open>nil\<close> matches a null or missing field.
\<close>

fun matchCond :: "cond \<Rightarrow> val \<Rightarrow> bool" where
  "matchCond (Eq v) x =
     (x = v \<or> (case x of VIDs ids \<Rightarrow> (\<exists>i\<in>set ids. VID i = v) | _ \<Rightarrow> False))"
| "matchCond (In vs) x =
     (x \<in> set vs \<or> (case x of VIDs ids \<Rightarrow> (\<exists>i\<in>set ids. VID i \<in> set vs) | _ \<Rightarrow> False))"

definition matchesM :: "meta \<Rightarrow> bsonM \<Rightarrow> model \<Rightarrow> bool" where
  "matchesM mt m d = (\<forall>(k, c)\<in>set m. matchCond c (docGet mt d k))"

definition matches :: "meta \<Rightarrow> query \<Rightarrow> model \<Rightarrow> bool" where
  "matches mt q d = (\<forall>m\<in>set q. matchesM mt m d)"

subsection \<open>The storage driver\<close>

text \<open>
  The MongoDB collection primitives the manager calls, on the documents of one
  collection.  A write reports a duplicate key when another document has the same
  \<open>_id\<close> or the same value under a uniquely indexed key.
\<close>

datatype dberr = DuplicateKey | ErrTransactionRequired | OtherError string

definition IsDuplicate :: "dberr \<Rightarrow> bool" where
  "IsDuplicate e = (e = DuplicateKey)"

fun dbError :: "dberr \<Rightarrow> err" where
  "dbError DuplicateKey = GoError ''E11000 duplicate key error''"
| "dbError ErrTransactionRequired = GoError ''operation requires a transaction''"
| "dbError (OtherError msg) = GoError msg"

definition uniqueKeys :: "world \<Rightarrow> meta \<Rightarrow> string list" where
  "uniqueKeys w mt = map snd (filter (\<lambda>(c, k). c = Collection mt) (Unique w))"

definition duplicate :: "meta \<Rightarrow> string list \<Rightarrow> model \<Rightarrow> model list \<Rightarrow> bool" where
  "duplicate mt keys d others =
     (\<exists>e\<in>set others. DocID e = DocID d \<or> (\<exists>k\<in>set keys. docGet mt e k = docGet mt d k))"

fun updateFirst :: "('a \<Rightarrow> bool) \<Rightarrow> ('a \<Rightarrow> 'a) \<Rightarrow> 'a list \<Rightarrow> 'a list" where
  "updateFirst p f [] = []"
| "updateFirst p f (x # xs) = (if p x then f x # xs else x # updateFirst p f xs)"

fun removeFirst :: "('a \<Rightarrow> bool) \<Rightarrow> 'a list \<Rightarrow> 'a list" where
  "removeFirst p [] = []"
| "removeFirst p (x # xs) = (if p x then xs else x # removeFirst p xs)"

text \<open>Writing a value under a key of a stored document (\<open>$set\<close>, upsert merge).\<close>

definition docSet :: "meta \<Rightarrow> string \<Rightarrow> val \<Rightarrow> model \<Rightarrow> model" where
  "docSet mt k v d =
     (case keyField mt k of
        Some f \<Rightarrow> d\<lparr>Values := (Values d)(Name f := v)\<rparr>
      | None \<Rightarrow> d)"

definition docSets :: "meta \<Rightarrow> (string \<times> val) list \<Rightarrow> model \<Rightarrow> model" where
  "docSets mt sets d = fold (\<lambda>(k, v). docSet mt k v) sets d"

definition incrementLock :: "model \<Rightarrow> model" where
  "incrementLock d = d\<lparr>Lock := Lock d + 1\<rparr>"

text \<open>The sort order of the driver on the values of a key, and a stable sort by keys.\<close>

fun strLess :: "string \<Rightarrow> string \<Rightarrow> bool" where
  "strLess [] [] = False"
| "strLess [] (y # ys) = True"
| "strLess (x # xs) [] = False"
| "strLess (x # xs) (y # ys) = ((of_char x :: nat) < of_char y \<or> (x = y \<and> strLess xs ys))"

fun rank :: "val \<Rightarrow> nat" where
  "rank VNil = 0"
| "rank (VInt i) = 1"
| "rank (VStr s) = 2"
| "rank (VIDs ids) = 3"
| "rank (VID i) = 4"
| "rank (VBool b) = 5"
| "rank (VTime t) = 6"

fun valLess :: "val \<Rightarrow> val \<Rightarrow> bool" where
  "valLess (VInt a) (VInt b) = (a < b)"
| "valLess (VStr a) (VStr b) = strLess a b"
| "valLess (VID a) (VID b) = (a < b)"
| "valLess (VBool a) (VBool b) = (\<not> a \<and> b)"
| "valLess (VTime a) (VTime b) = (a < b)"
| "valLess a b = (rank a < rank b)"

fun docLess :: "meta \<Rightarrow> string list \<Rightarrow> model \<Rightarrow> model \<Rightarrow> bool" where
  "docLess mt [] a b = False"
| "docLess mt (s # srt) a b =
     (let descending = (take 1 s = ''-'');
          key = (if descending then drop 1 s else s);
          x = docGet mt a key; y = docGet mt b key
      in if descending then (valLess y x \<or> (\<not> valLess x y \<and> docLess mt srt a b))
         else (valLess x y \<or> (\<not> valLess y x \<and> docLess mt srt a b)))"

fun insertDoc :: "meta \<Rightarrow> string list \<Rightarrow> model \<Rightarrow> model list \<Rightarrow> model list" where
  "insertDoc mt srt d [] = [d]"
| "insertDoc mt srt d (e # es) =
     (if docLess mt srt e d then e # insertDoc mt srt d es else d # e # es)"

definition sortDocs :: "meta \<Rightarrow> string list \<Rightarrow> model list \<Rightarrow> model list" where
  "sortDocs mt srt docs = foldr (insertDoc mt srt) docs []"

definition window :: "int \<Rightarrow> int \<Rightarrow> 'a list \<Rightarrow> 'a list" where
  "window skip limit xs =
     (let ys = (if skip > 0 then drop (nat skip) xs else xs)
      in if limit > 0 then take (nat limit) ys else ys)"

definition collFindOne :: "meta \<Rightarrow> query \<Rightarrow> string list \<Rightarrow> int \<Rightarrow> world \<Rightarrow> model option" where
  "collFindOne mt q srt skip w =
     (case window skip 0 (sortDocs mt srt (filter (matches mt q) (Colls w (Collection mt)))) of
        [] \<Rightarrow> None
      | d # ds \<Rightarrow> Some d)"

text \<open>\<open>FindOneAndUpdate\<close> with \<open>incrementLock\<close>, returning the document after the update.\<close>

definition collFindOneAndLock :: "meta \<Rightarrow> query \<Rightarrow> string list \<Rightarrow> int \<Rightarrow> world \<Rightarrow> model option \<times> world" where
  "collFindOneAndLock mt q srt skip w =
     (case collFindOne mt q srt skip w of
        None \<Rightarrow> (None, w)
      | Some d \<Rightarrow>
          (Some (incrementLock d),
           w\<lparr>Colls := (Colls w)(Collection mt :=
                updateFirst (\<lambda>e. DocID e = DocID d) incrementLock (Colls w (Collection mt)))\<rparr>))"

definition collFind :: "meta \<Rightarrow> query \<Rightarrow> string list \<Rightarrow> int \<Rightarrow> int \<Rightarrow> world \<Rightarrow> model list" where
  "collFind mt q srt skip limit w =
     window skip limit (sortDocs mt srt (filter (matches mt q) (Colls w (Collection mt))))"

definition collCountDocuments :: "meta \<Rightarrow> query \<Rightarrow> int \<Rightarrow> int \<Rightarrow> world \<Rightarrow> int" where
  "collCountDocuments mt q skip limit w =
     int (length (window skip limit (filter (matches mt q) (Colls w (Collection mt)))))"

definition collUpdateMany :: "meta \<Rightarrow> query \<Rightarrow> (model \<Rightarrow> model) \<Rightarrow> world \<Rightarrow> int \<times> world" where
  "collUpdateMany mt q f w =
     (int (length (filter (matches mt q) (Colls w (Collection mt)))),
      w\<lparr>Colls := (Colls w)(Collection mt :=
           map (\<lambda>d. if matches mt q d then f d else d) (Colls w (Collection mt)))\<rparr>)"

definition collInsertOne :: "meta \<Rightarrow> model \<Rightarrow> world \<Rightarrow> (dberr + unit) \<times> world" where
  "collInsertOne mt d w =
     (if duplicate mt (uniqueKeys w mt) d (Colls w (Collection mt)) then (Inl DuplicateKey, w)
      else (Inr (), w\<lparr>Colls := (Colls w)(Collection mt := Colls w (Collection mt) @ [d])\<rparr>))"

text \<open>
  \<open>UpdateOne\<close> with upsert and \<open>$setOnInsert\<close>: a matching document is left as it
  is; otherwise the new document, merged with the equalities of the query, is
  inserted.  The result is the upserted count.
\<close>

definition mergeQuery :: "meta \<Rightarrow> query \<Rightarrow> model \<Rightarrow> model" where
  "mergeQuery mt q d =
     fold (\<lambda>(k, c) d. case c of Eq v \<Rightarrow> docSet mt k v d | In vs \<Rightarrow> d) (concat q) d"

definition collUpsert :: "meta \<Rightarrow> query \<Rightarrow> model \<Rightarrow> world \<Rightarrow> (dberr + nat) \<times> world" where
  "collUpsert mt q d w =
     (if \<exists>e\<in>set (Colls w (Collection mt)). matches mt q e then (Inr 0, w)
      else (case collInsertOne mt (mergeQuery mt q d) w of
              (Inl e, w') \<Rightarrow> (Inl e, w')
            | (Inr u, w') \<Rightarrow> (Inr 1, w')))"

text \<open>
  \<open>ReplaceOne\<close> and \<open>UpdateOne\<close> change the first matching document and report the
  matched count; the \<open>_id\<close> of a document cannot change.
\<close>

definition collChangeOne :: "meta \<Rightarrow> query \<Rightarrow> (model \<Rightarrow> model) \<Rightarrow> world \<Rightarrow> (dberr + nat) \<times> world" where
  "collChangeOne mt q f w =
     (case find (matches mt q) (Colls w (Collection mt)) of
        None \<Rightarrow> (Inr 0, w)
      | Some old \<Rightarrow>
          (if DocID (f old) \<noteq> DocID old then (Inl (OtherError ''the _id field is immutable''), w)
           else if duplicate mt (uniqueKeys w mt) (f old)
                     (removeFirst (matches mt q) (Colls w (Collection mt)))
           then (Inl DuplicateKey, w)
           else (Inr 1, w\<lparr>Colls := (Colls w)(Collection mt :=
                   updateFirst (matches mt q) f (Colls w (Collection mt)))\<rparr>)))"

definition collReplaceOne :: "meta \<Rightarrow> query \<Rightarrow> model \<Rightarrow> world \<Rightarrow> (dberr + nat) \<times> world" where
  "collReplaceOne mt q d w = collChangeOne mt q (\<lambda>old. d) w"

definition collUpdateOne :: "meta \<Rightarrow> query \<Rightarrow> (string \<times> val) list \<Rightarrow> bool \<Rightarrow> world \<Rightarrow> (dberr + nat) \<times> world" where
  "collUpdateOne mt q sets inc w =
     collChangeOne mt q (\<lambda>old. (if inc then incrementLock else id) (docSets mt sets old)) w"

definition collDeleteOne :: "meta \<Rightarrow> query \<Rightarrow> world \<Rightarrow> (dberr + nat) \<times> world" where
  "collDeleteOne mt q w =
     (case find (matches mt q) (Colls w (Collection mt)) of
        None \<Rightarrow> (Inr 0, w)
      | Some old \<Rightarrow>
          (Inr 1, w\<lparr>Colls := (Colls w)(Collection mt :=
             removeFirst (matches mt q) (Colls w (Collection mt)))\<rparr>))"

subsection \<open>The manager (coal.Manager)\<close>

text \<open>
  Every operation takes the transaction flag of the calling context
  (\<open>getKey(ctx, hasTransaction)\<close>).  The translation of a query or of a sort by the
  manager's translator is taken to succeed.
\<close>

definition Manager_FindFirst :: "meta \<Rightarrow> bool \<Rightarrow> query \<Rightarrow> string list \<Rightarrow> int \<Rightarrow> bool \<Rightarrow> world \<Rightarrow> (dberr + model option) \<times> world" where
  "Manager_FindFirst mt tx q srt skip lock w =
     (if lock \<and> \<not> tx then (Inl ErrTransactionRequired, w)
      else if lock then (case collFindOneAndLock mt q srt skip w of (r, w') \<Rightarrow> (Inr r, w'))
      else (Inr (collFindOne mt q srt skip w), w))"

definition Manager_FindAll :: "meta \<Rightarrow> bool \<Rightarrow> query \<Rightarrow> string list \<Rightarrow> int \<Rightarrow> int \<Rightarrow> bool \<Rightarrow> world \<Rightarrow> (dberr + model list) \<times> world" where
  "Manager_FindAll mt tx q srt skip limit lock w =
     (if \<not> tx then (Inl ErrTransactionRequired, w)
      else if lock \<and> (skip > 0 \<or> limit > 0) then (Inl (OtherError ''cannot lock with skip and limit''), w)
      else (let w' = (if lock then snd (collUpdateMany mt q incrementLock w) else w)
            in (Inr (collFind mt q srt skip limit w'), w')))"

definition Manager_Count :: "meta \<Rightarrow> bool \<Rightarrow> query \<Rightarrow> int \<Rightarrow> int \<Rightarrow> bool \<Rightarrow> world \<Rightarrow> (dberr + int) \<times> world" where
  "Manager_Count mt tx q skip limit lock w =
     (if \<not> tx then (Inl ErrTransactionRequired, w)
      else if lock \<and> (skip > 0 \<or> limit > 0) then (Inl (OtherError ''cannot lock with skip and limit''), w)
      else if lock then (case collUpdateMany mt q incrementLock w of (n, w') \<Rightarrow> (Inr n, w'))
      else (Inr (collCountDocuments mt q skip limit w), w))"

definition Manager_Insert :: "meta \<Rightarrow> model \<Rightarrow> world \<Rightarrow> (dberr + model) \<times> world" where
  "Manager_Insert mt m w =
     (let (m', w1) = (if DocID m = 0
                      then (case New w of (r, w') \<Rightarrow> (m\<lparr>DocID := Supply w (Used w)\<rparr>, w'))
                      else (m, w))
      in case collInsertOne mt m' w1 of
           (Inl e, w2) \<Rightarrow> (Inl e, w2)
         | (Inr u, w2) \<Rightarrow> (Inr m', w2))"

definition Manager_InsertIfMissing :: "meta \<Rightarrow> bool \<Rightarrow> query \<Rightarrow> model \<Rightarrow> world \<Rightarrow> (dberr + bool \<times> model) \<times> world" where
  "Manager_InsertIfMissing mt tx q m w =
     (if \<not> tx then (Inl ErrTransactionRequired, w)
      else
        (let (m', w1) = (if DocID m = 0
                         then (case New w of (r, w') \<Rightarrow> (m\<lparr>DocID := Supply w (Used w)\<rparr>, w'))
                         else (m, w))
         in case collUpsert mt q m' w1 of
              (Inl e, w2) \<Rightarrow> (Inl e, w2)
            | (Inr n, w2) \<Rightarrow> (Inr (n = 1, m'), w2)))"

definition Manager_Replace :: "meta \<Rightarrow> bool \<Rightarrow> model \<Rightarrow> bool \<Rightarrow> world \<Rightarrow> (dberr + bool \<times> model) \<times> world" where
  "Manager_Replace mt tx m lock w =
     (if DocID m = 0 then (Inl (OtherError ''model has a zero id''), w)
      else if lock \<and> \<not> tx then (Inl ErrTransactionRequired, w)
      else
        (let m' = (if lock then m\<lparr>Lock := Lock m + 1000\<rparr> else m)
         in case collReplaceOne mt [[(''_id'', Eq (VID (DocID m')))]] m' w of
              (Inl e, w') \<Rightarrow> (Inl e, w')
            | (Inr n, w') \<Rightarrow> (Inr (n = 1, m'), w')))"

definition Manager_ReplaceFirst :: "meta \<Rightarrow> bool \<Rightarrow> query \<Rightarrow> model \<Rightarrow> bool \<Rightarrow> world \<Rightarrow> (dberr + bool \<times> model) \<times> world" where
  "Manager_ReplaceFirst mt tx q m lock w =
     (if lock \<and> \<not> tx then (Inl ErrTransactionRequired, w)
      else
        (let m' = (if lock then m\<lparr>Lock := Lock m + 1000\<rparr> else m)
         in case collReplaceOne mt q m' w of
              (Inl e, w') \<Rightarrow> (Inl e, w')
            | (Inr n, w') \<Rightarrow> (Inr (n = 1, m'), w')))"

definition Manager_Update :: "meta \<Rightarrow> bool \<Rightarrow> ID \<Rightarrow> (string \<times> val) list \<Rightarrow> bool \<Rightarrow> world \<Rightarrow> (dberr + bool) \<times> world" where
  "Manager_Update mt tx i sets lock w =
     (if lock \<and> \<not> tx then (Inl ErrTransactionRequired, w)
      else (case collUpdateOne mt [[(''_id'', Eq (VID i))]] sets lock w of
              (Inl e, w') \<Rightarrow> (Inl e, w')
            | (Inr n, w') \<Rightarrow> (Inr (n = 1), w')))"

definition Manager_Delete :: "meta \<Rightarrow> ID \<Rightarrow> world \<Rightarrow> (dberr + bool) \<times> world" where
  "Manager_Delete mt i w =
     (case collDeleteOne mt [[(''_id'', Eq (VID i))]] w of
        (Inl e, w') \<Rightarrow> (Inl e, w')
      | (Inr n, w') \<Rightarrow> (Inr (n = 1), w'))"

section \<open>Object ids in hexadecimal\<close>

text \<open>
  Modelled from the spec: \<open>coal.FromHex\<close>, \<open>coal.MustFromHex\<close>, \<open>coal.IsHex\<close> and \<open>ID.Hex\<close>
  are not under src/.  A valid identifier is written as 24 hexadecimal digits.
\<close>

definition hexDigit :: "char \<Rightarrow> nat option" where
  "hexDigit c = map_of
     [(CHR ''0'', 0), (CHR ''1'', 1), (CHR ''2'', 2), (CHR ''3'', 3), (CHR ''4'', 4),
      (CHR ''5'', 5), (CHR ''6'', 6), (CHR ''7'', 7), (CHR ''8'', 8), (CHR ''9'', 9),
      (CHR ''a'', 10), (CHR ''b'', 11), (CHR ''c'', 12), (CHR ''d'', 13), (CHR ''e'', 14),
      (CHR ''f'', 15), (CHR ''A'', 10), (CHR ''B'', 11), (CHR ''C'', 12), (CHR ''D'', 13),
      (CHR ''E'', 14), (CHR ''F'', 15)] c"

fun hexValue :: "nat \<Rightarrow> string \<Rightarrow> nat option" where
  "hexValue acc [] = Some acc"
| "hexValue acc (c # cs) =
     (case hexDigit c of None \<Rightarrow> None | Some d \<Rightarrow> hexValue (16 * acc + d) cs)"

definition FromHex :: "string \<Rightarrow> ID option" where
  "FromHex s = (if length s = 24 then hexValue 0 s else None)"

definition IsHex :: "string \<Rightarrow> bool" where
  "IsHex s = (FromHex s \<noteq> None)"

definition MustFromHex :: "string \<Rightarrow> err + ID" where
  "MustFromHex s = (case FromHex s of None \<Rightarrow> Inl (Panic ''coal: invalid hex id'') | Some i \<Rightarrow> Inr i)"

fun hexDigits :: "nat \<Rightarrow> nat \<Rightarrow> string" where
  "hexDigits 0 n = []"
| "hexDigits (Suc k) n = hexDigits k (n div 16) @ [''0123456789abcdef'' ! (n mod 16)]"

definition Hex :: "ID \<Rightarrow> string" where
  "Hex i = hexDigits 24 i"

section \<open>Requests, documents and the request context\<close>

datatype intent =
    ListResources | FindResource | CreateResource | UpdateResource | DeleteResource
  | GetRelatedResources | GetRelationship | SetRelationship
  | AppendToRelationship | RemoveFromRelationship
  | JCollectionAction | JResourceAction

record request =
  Intent :: intent
  Prefix :: string
  ResourceType :: string
  ResourceID :: string
  RelatedResource :: string
  Relationship :: string
  ReqCollectionAction :: string
  ReqResourceAction :: string
  PageNumber :: int
  PageSize :: int
  ReqSorting :: "string list"
  ReqFields :: "(string \<times> string list) list"
  ReqFilters :: "(string \<times> string list) list"

text \<open>\<open>DocumentExpected\<close> of an intent and \<open>Self\<close> of a request (the jsonapi library).\<close>

definition DocumentExpected :: "intent \<Rightarrow> bool" where
  "DocumentExpected i = (i \<in> {CreateResource, UpdateResource, SetRelationship,
                               AppendToRelationship, RemoveFromRelationship})"

definition SelfOf :: "request \<Rightarrow> string" where
  "SelfOf r =
     (if Prefix r = [] then [] else ''/'' @ Prefix r) @ ''/'' @ ResourceType r
     @ (if ResourceID r = [] then [] else ''/'' @ ResourceID r)
     @ (if RelatedResource r = [] then [] else ''/'' @ RelatedResource r)
     @ (if Relationship r = [] then [] else ''/relationships/'' @ Relationship r)
     @ (if ReqCollectionAction r = [] then [] else ''/'' @ ReqCollectionAction r)
     @ (if ReqResourceAction r = [] then [] else ''/'' @ ReqResourceAction r)"

record links =
  Self :: string
  Related :: string
  First :: string
  Previous :: string
  Next :: string
  Last :: string

definition noLinks :: links where
  "noLinks = \<lparr> Self = [], Related = [], First = [], Previous = [], Next = [], Last = [] \<rparr>"

datatype resource =
    Resource (ResType: string) (ResID: string)
             (ResAttributes: "(string \<times> val) list")
             (ResRelationships: "(string \<times> document) list")
and document =
    Document (Data: "hybrid option") (Links: "links option")
and hybrid =
    Hybrid (One: "resource option") (Many: "resource list")

datatype operation = List | Find | Create | Update | Delete | CollectionAction | ResourceAction

text \<open>
  Modelled from the spec: the methods \<open>Read\<close>, \<open>Write\<close> and \<open>Action\<close> of an operation
  (context.go) are not under src/.  The operations Create, Update and Delete write
  (the table of the test of these methods, and the write timeout of the spec); an
  operation is an action when it is a collection or a resource action.
\<close>

definition Read :: "operation \<Rightarrow> bool" where
  "Read opn = (opn = List \<or> opn = Find)"

definition Write :: "operation \<Rightarrow> bool" where
  "Write opn = (opn = Create \<or> opn = Update \<or> opn = Delete)"

definition Action :: "operation \<Rightarrow> bool" where
  "Action opn = (opn = CollectionAction \<or> opn = ResourceAction)"

record Context =
  Operation :: operation
  Selector :: bsonM
  Filters :: "bsonM list"
  Sorting :: "string list"
  ReadableFields :: "string list"
  WritableFields :: "string list"
  RelationshipFilters :: "(string \<times> bsonM list) list"
  Model :: "model option"
  Models :: "model list"
  Original :: "model option"
  JSONAPIRequest :: request
  Request :: "document option"
  Response :: "document option"
  ResponseCode :: nat
  WrittenHeader :: "nat option"
  HasTransaction :: bool

text \<open>
  Modelled from the spec: \<open>Context.Query\<close> (context.go) is not under src/.  The query
  of a context is the conjunction of its selector and of its filters.
\<close>

definition Query :: "Context \<Rightarrow> query" where
  "Query ctx = Selector ctx # Filters ctx"

text \<open>
  A callback returns an error or nil and may change the context and the store.
  An error marked safe is surfaced with the status of the pipeline point.
\<close>

datatype cberr = Safe string | Unsafe err

record callback =
  Matcher :: "Context \<Rightarrow> bool"
  Handler :: "Context \<Rightarrow> world \<Rightarrow> cberr option \<times> Context \<times> world"

record action =
  Methods :: "string list"
  ActionHandler :: "Context \<Rightarrow> world \<Rightarrow> cberr option \<times> Context \<times> world"

record controller =
  Meta :: meta
  Supported :: "Context \<Rightarrow> bool"
  CFilters :: "string list"
  Sorters :: "string list"
  Authorizers :: "callback list"
  Validators :: "callback list"
  Decorators :: "callback list"
  Notifiers :: "callback list"
  ListLimit :: int
  CollectionActions :: "(string \<times> action) list"
  ResourceActions :: "(string \<times> action) list"
  TolerateViolations :: bool
  IdempotentCreate :: bool
  ConsistentUpdate :: bool
  SoftDelete :: bool

text \<open>The controllers of a group by resource type.\<close>

type_synonym group = "(string \<times> controller) list"

definition Contains :: "string list \<Rightarrow> string \<Rightarrow> bool" where
  "Contains list str = (str \<in> set list)"

definition Intersect :: "string list \<Rightarrow> string list \<Rightarrow> string list" where
  "Intersect listA listB = filter (\<lambda>item. Contains listB item) listA"

text \<open>\<open>coal.Contains\<close> on a list of ids.\<close>

definition ContainsID :: "ID list \<Rightarrow> ID \<Rightarrow> bool" where
  "ContainsID list i = (i \<in> set list)"

section \<open>The controller\<close>

text \<open>The result of a manager call under \<open>stack.AbortIf\<close>.\<close>

definition db :: "(world \<Rightarrow> (dberr + 'a) \<times> world) \<Rightarrow> 'a step" where
  "db f w = (case f w of (Inl e, w') \<Rightarrow> (Inl (dbError e), w') | (Inr x, w') \<Rightarrow> (Inr x, w'))"

text \<open>The loaded model of a context; a nil model is a nil pointer dereference.\<close>

definition theModel :: "Context \<Rightarrow> err + model" where
  "theModel ctx = (case Model ctx of None \<Rightarrow> Inl (Panic ''nil pointer dereference'') | Some m \<Rightarrow> Inr m)"

subsection \<open>Preparation\<close>

text \<open>
  \<open>prepare\<close> panics on an invalid action name and on a flagged field of the wrong
  type.  The defaults it fills in (limits, timeouts, the matcher of supported
  operations) have no counterpart in the embedding.
\<close>

definition flagKind :: "meta \<Rightarrow> string \<Rightarrow> kind \<Rightarrow> err + unit" where
  "flagKind mt flag k =
     (case L mt flag of
        Inl e \<Rightarrow> Inl e
      | Inr fieldName \<Rightarrow>
          (case Fields mt fieldName of
             None \<Rightarrow> Inl (Panic ''nil pointer dereference'')
           | Some f \<Rightarrow> if Kind f \<noteq> k then Inl (Panic (''fire: field '' @ fieldName @ '' has the wrong type''))
                       else Inr ()))"

definition prepare :: "controller \<Rightarrow> err + controller" where
  "prepare c =
     (if \<exists>name\<in>set (map fst (CollectionActions c)). name = [] \<or> IsHex name
      then Inl (Panic ''fire: invalid collection action'')
      else if \<exists>name\<in>set (map fst (ResourceActions c)).
                name = [] \<or> name = ''relationships'' \<or> Relationships (Meta c) name \<noteq> None
      then Inl (Panic ''fire: invalid resource action'')
      else case (if SoftDelete c then flagKind (Meta c) ''fire-soft-delete'' KOptTime else Inr ()) of
        Inl e \<Rightarrow> Inl e
      | Inr u \<Rightarrow>
     (case (if IdempotentCreate c then flagKind (Meta c) ''fire-idempotent-create'' KString else Inr ()) of
        Inl e \<Rightarrow> Inl e
      | Inr u \<Rightarrow>
     (case (if ConsistentUpdate c then flagKind (Meta c) ''fire-consistent-update'' KString else Inr ()) of
        Inl e \<Rightarrow> Inl e
      | Inr u \<Rightarrow> Inr c)))"

subsection \<open>Callbacks\<close>

fun runCallbacks :: "callback list \<Rightarrow> nat \<Rightarrow> Context \<Rightarrow> Context step" where
  "runCallbacks [] errorStatus ctx w = (Inr ctx, w)"
| "runCallbacks (cb # list) errorStatus ctx w =
     (if \<not> Matcher cb ctx then runCallbacks list errorStatus ctx w
      else (case Handler cb ctx w of
              (Some (Safe msg), ctx', w') \<Rightarrow> (Inl (JSONAPIError errorStatus msg), w')
            | (Some (Unsafe e), ctx', w') \<Rightarrow> (Inl e, w')
            | (None, ctx', w') \<Rightarrow> runCallbacks list errorStatus ctx' w'))"

definition runAction :: "action \<Rightarrow> Context \<Rightarrow> nat \<Rightarrow> Context step" where
  "runAction a ctx errorStatus w =
     (case ActionHandler a ctx w of
        (Some (Safe msg), ctx', w') \<Rightarrow> (Inl (JSONAPIError errorStatus msg), w')
      | (Some (Unsafe e), ctx', w') \<Rightarrow> (Inl e, w')
      | (None, ctx', w') \<Rightarrow> (Inr ctx', w'))"

subsection \<open>Field lists\<close>

fun requestedFields :: "meta \<Rightarrow> string list \<Rightarrow> string list \<Rightarrow> err + string list" where
  "requestedFields mt [] requested = Inr requested"
| "requestedFields mt (fld # rest) requested =
     (case Attributes mt fld of
        Some f \<Rightarrow> requestedFields mt rest (requested @ [Name f])
      | None \<Rightarrow>
          (case Relationships mt fld of
             Some f \<Rightarrow> requestedFields mt rest (requested @ [Name f])
           | None \<Rightarrow> Inl (BadRequest (''invalid sparse field '' @ fld))))"

definition initialFields :: "controller \<Rightarrow> request option \<Rightarrow> err + string list" where
  "initialFields c r =
     (let list = map Name (AttributeList (Meta c)) @ map Name (RelationshipList (Meta c))
      in case r of
           None \<Rightarrow> Inr list
         | Some r \<Rightarrow>
             (case map_of (ReqFields r) (PluralName (Meta c)) of
                None \<Rightarrow> Inr list
              | Some fs \<Rightarrow>
                  if length fs > 0
                  then (case requestedFields (Meta c) fs [] of
                          Inl e \<Rightarrow> Inl e
                        | Inr requested \<Rightarrow> Inr (Intersect requested list))
                  else Inr list))"

text \<open>
  The conversion of field names to JSON keys and relationship names that opens
  \<open>assignData\<close> and \<open>constructResource\<close>, and to relationship names only in
  \<open>preloadRelationships\<close>.
\<close>

fun fieldKeys :: "meta \<Rightarrow> string \<Rightarrow> string list \<Rightarrow> string list \<Rightarrow> err + string list" where
  "fieldKeys mt what [] whitelist = Inr whitelist"
| "fieldKeys mt what (fld # rest) whitelist =
     (case Fields mt fld of
        None \<Rightarrow> Inl (GoError (''unknown '' @ what @ '' field '' @ fld))
      | Some f \<Rightarrow>
          fieldKeys mt what rest
            (if JSONKey f \<noteq> [] then whitelist @ [JSONKey f]
             else if RelName f \<noteq> [] then whitelist @ [RelName f]
             else whitelist))"

fun relationshipKeys :: "meta \<Rightarrow> string list \<Rightarrow> string list \<Rightarrow> err + string list" where
  "relationshipKeys mt [] whitelist = Inr whitelist"
| "relationshipKeys mt (fld # rest) whitelist =
     (case Fields mt fld of
        None \<Rightarrow> Inl (GoError (''unknown readable field '' @ fld))
      | Some f \<Rightarrow>
          relationshipKeys mt rest
            (if RelName f \<noteq> [] then whitelist @ [RelName f] else whitelist))"

subsection \<open>Loading\<close>

definition loadModel :: "controller \<Rightarrow> Context \<Rightarrow> Context step" where
  "loadModel c ctx =
     andThen (abortIf (MustFromHex (ResourceID (JSONAPIRequest ctx)))) (\<lambda>i.
     andThen (if SoftDelete c
              then andThen (abortIf (L (Meta c) ''fire-soft-delete'')) (\<lambda>softDeleteField.
                   ok (ctx\<lparr>Selector := AList.update (F (Meta c) softDeleteField) (Eq VNil)
                                         (AList.update ''_id'' (Eq (VID i)) (Selector ctx))\<rparr>))
              else ok (ctx\<lparr>Selector := AList.update ''_id'' (Eq (VID i)) (Selector ctx)\<rparr>)) (\<lambda>ctx.
     andThen (runCallbacks (Authorizers c) StatusUnauthorized ctx) (\<lambda>ctx.
     andThen (db (Manager_FindFirst (Meta c) (HasTransaction ctx) (Query ctx) [] 0
                    (Write (Operation ctx)))) (\<lambda>found.
     case found of
       None \<Rightarrow> abort (NotFound ''resource not found'')
     | Some model \<Rightarrow>
         ok (ctx\<lparr>Model := Some model,
                 Original := (if Operation ctx = Update then Some model else Original ctx)\<rparr>)))))"

fun convertIDs :: "string \<Rightarrow> string list \<Rightarrow> ID list \<Rightarrow> err + ID list" where
  "convertIDs msg [] ids = Inr ids"
| "convertIDs msg (str # rest) ids =
     (case FromHex str of
        None \<Rightarrow> Inl (BadRequest msg)
      | Some refID \<Rightarrow> convertIDs msg rest (ids @ [refID]))"

fun addFilters :: "controller \<Rightarrow> (string \<times> string list) list \<Rightarrow> bsonM list \<Rightarrow> err + bsonM list" where
  "addFilters c [] filters = Inr filters"
| "addFilters c ((name, values) # rest) filters =
     (case Attributes (Meta c) name of
        Some fld \<Rightarrow>
          if \<not> Contains (CFilters c) (Name fld) then Inl (BadRequest (''invalid filter '' @ name))
          else if Kind fld = KBool \<and> length values = 1
          then addFilters c rest (filters @ [[(BSONField fld, Eq (VBool (values ! 0 = ''true'')))]])
          else addFilters c rest (filters @ [[(BSONField fld, In (map VStr values))]])
      | None \<Rightarrow>
          (case Relationships (Meta c) name of
             Some fld \<Rightarrow>
               if (\<not> ToOne fld \<and> \<not> ToMany fld) \<or> \<not> Contains (CFilters c) (Name fld)
               then Inl (BadRequest (''invalid filter '' @ name))
               else (case convertIDs ''relationship filter value is not an object id'' values [] of
                       Inl e \<Rightarrow> Inl e
                     | Inr ids \<Rightarrow>
                         addFilters c rest (filters @ [[(BSONField fld, In (map VID ids))]]))
           | None \<Rightarrow> Inl (BadRequest (''invalid filter '' @ name))))"

fun addSorting :: "controller \<Rightarrow> string list \<Rightarrow> string list \<Rightarrow> err + string list" where
  "addSorting c [] sorting = Inr sorting"
| "addSorting c (sorter # rest) sorting =
     (let descending = (take 1 sorter = ''-'');
          normalizedSorter = (if descending then drop 1 sorter else sorter)
      in case Attributes (Meta c) normalizedSorter of
           None \<Rightarrow> Inl (BadRequest (''invalid sorter '' @ normalizedSorter))
         | Some fld \<Rightarrow>
             if \<not> Contains (Sorters c) (Name fld)
             then Inl (BadRequest (''unsupported sorter '' @ normalizedSorter))
             else addSorting c rest
                    (sorting @ [if descending then ''-'' @ BSONField fld else BSONField fld]))"

text \<open>The wrap-around of a 64-bit signed product.\<close>

definition int64 :: "int \<Rightarrow> int" where
  "int64 x = (x + 2 ^ 63) mod 2 ^ 64 - 2 ^ 63"

definition loadModels :: "controller \<Rightarrow> Context \<Rightarrow> Context step" where
  "loadModels c ctx =
     andThen (if SoftDelete c
              then andThen (abortIf (L (Meta c) ''fire-soft-delete'')) (\<lambda>softDeleteField.
                   ok (ctx\<lparr>Selector := AList.update (F (Meta c) softDeleteField) (Eq VNil) (Selector ctx)\<rparr>))
              else ok ctx) (\<lambda>ctx.
     andThen (abortIf (addFilters c (ReqFilters (JSONAPIRequest ctx)) (Filters ctx))) (\<lambda>filters.
     andThen (abortIf (addSorting c (ReqSorting (JSONAPIRequest ctx)) (Sorting ctx))) (\<lambda>sorting.
     let req = JSONAPIRequest ctx;
         req = (if ListLimit c > 0 \<and> (PageSize req = 0 \<or> PageSize req > ListLimit c)
                then req\<lparr>PageSize := ListLimit c,
                         PageNumber := (if PageNumber req = 0 then 1 else PageNumber req)\<rparr>
                else req)
     in
     andThen (runCallbacks (Authorizers c) StatusUnauthorized
                (ctx\<lparr>Filters := filters, Sorting := sorting, JSONAPIRequest := req\<rparr>)) (\<lambda>ctx.
     let req = JSONAPIRequest ctx;
         limit = (if PageNumber req > 0 \<and> PageSize req > 0 then PageSize req else 0);
         skip = (if PageNumber req > 0 \<and> PageSize req > 0
                 then int64 ((PageNumber req - 1) * PageSize req) else 0)
     in
     andThen (db (Manager_FindAll (Meta c) (HasTransaction ctx) (Query ctx) (Sorting ctx)
                    skip limit False)) (\<lambda>models.
     ok (ctx\<lparr>Models := models\<rparr>))))))"

text \<open>Sequencing of results that do not touch the world.\<close>

definition thenR :: "err + 'a \<Rightarrow> ('a \<Rightarrow> err + 'b) \<Rightarrow> err + 'b" where
  "thenR r g = (case r of Inl e \<Rightarrow> Inl e | Inr x \<Rightarrow> g x)"

subsection \<open>Assignment of the request document\<close>

fun whitelistAttributes :: "controller \<Rightarrow> string list \<Rightarrow> (string \<times> val) list \<Rightarrow> (string \<times> val) list \<Rightarrow> err + (string \<times> val) list" where
  "whitelistAttributes c whitelist [] attributes = Inr attributes"
| "whitelistAttributes c whitelist ((name, value) # rest) attributes =
     (case Attributes (Meta c) name of
        None \<Rightarrow> Inl (BadRequestPointer ''invalid attribute'' (''/data/attributes/'' @ name))
      | Some fld \<Rightarrow>
          if \<not> Contains whitelist name
          then (if TolerateViolations c then whitelistAttributes c whitelist rest attributes
                else Inl (BadRequestPointer ''attribute is not writable'' (''/data/attributes/'' @ name)))
          else whitelistAttributes c whitelist rest (AList.update name value attributes))"

text \<open>
  \<open>jsonapi.Map.Assign\<close> writes each entry to the struct field with that JSON key:
  a key without a field is skipped, a null leaves a field that is not a pointer as
  it is, and a value of another type is an error.
\<close>

fun Assign :: "meta \<Rightarrow> (string \<times> val) list \<Rightarrow> model \<Rightarrow> err + model" where
  "Assign mt [] m = Inr m"
| "Assign mt ((name, value) # rest) m =
     (case Attributes mt name of
        None \<Rightarrow> Assign mt rest m
      | Some fld \<Rightarrow>
          if value = VNil \<and> \<not> fits (Kind fld) VNil then Assign mt rest m
          else if fits (Kind fld) value
          then Assign mt rest (m\<lparr>Values := (Values m)(Name fld := value)\<rparr>)
          else Inl (GoError (''json: cannot unmarshal value into field '' @ Name fld)))"

fun convertReferences :: "string \<Rightarrow> resource list \<Rightarrow> ID list \<Rightarrow> err + ID list" where
  "convertReferences relType [] ids = Inr ids"
| "convertReferences relType (r # rest) ids =
     (if ResType r \<noteq> relType then Inl (BadRequest ''resource type mismatch'')
      else (case FromHex (ResID r) of
              None \<Rightarrow> Inl (BadRequest ''invalid relationship id'')
            | Some relID \<Rightarrow> convertReferences relType rest (ids @ [relID])))"

definition assignRelationship :: "controller \<Rightarrow> Context \<Rightarrow> document \<Rightarrow> field \<Rightarrow> err + Context" where
  "assignRelationship c ctx rel fld =
     thenR (if ToOne fld
            then thenR (case Data rel of
                          None \<Rightarrow> Inr 0
                        | Some h \<Rightarrow>
                            (case One h of
                               None \<Rightarrow> Inr 0
                             | Some one \<Rightarrow>
                                 if ResType one \<noteq> RelType fld
                                 then Inl (BadRequest ''resource type mismatch'')
                                 else (case FromHex (ResID one) of
                                         None \<Rightarrow> Inl (BadRequest ''invalid relationship id'')
                                       | Some relID \<Rightarrow> Inr relID))) (\<lambda>i.
                 thenR (theModel ctx) (\<lambda>m.
                 thenR (MustSet (Meta c) m (Name fld)
                          (if \<not> Optional fld then VID i else if i \<noteq> 0 then VID i else VNil)) (\<lambda>m.
                 Inr (ctx\<lparr>Model := Some m\<rparr>))))
            else Inr ctx) (\<lambda>ctx.
     if ToMany fld
     then thenR (case Data rel of
                   None \<Rightarrow> Inr []
                 | Some h \<Rightarrow> convertReferences (RelType fld) (Many h) []) (\<lambda>ids.
          thenR (theModel ctx) (\<lambda>m.
          thenR (MustSet (Meta c) m (Name fld) (VIDs ids)) (\<lambda>m.
          Inr (ctx\<lparr>Model := Some m\<rparr>))))
     else Inr ctx)"

fun assignRelationships :: "controller \<Rightarrow> string list \<Rightarrow> (string \<times> document) list \<Rightarrow> Context \<Rightarrow> err + Context" where
  "assignRelationships c whitelist [] ctx = Inr ctx"
| "assignRelationships c whitelist ((name, rel) # rest) ctx =
     (case Relationships (Meta c) name of
        None \<Rightarrow> Inl (BadRequestPointer ''invalid relationship'' (''/data/relationships/'' @ name))
      | Some fld \<Rightarrow>
          if \<not> Contains whitelist name \<or> (\<not> ToOne fld \<and> \<not> ToMany fld)
          then (if TolerateViolations c then assignRelationships c whitelist rest ctx
                else Inl (BadRequestPointer ''relationship is not writable''
                            (''/data/relationships/'' @ name)))
          else (case assignRelationship c ctx rel fld of
                  Inl e \<Rightarrow> Inl e
                | Inr ctx' \<Rightarrow> assignRelationships c whitelist rest ctx'))"

definition assignData :: "controller \<Rightarrow> Context \<Rightarrow> resource \<Rightarrow> err + Context" where
  "assignData c ctx res =
     thenR (fieldKeys (Meta c) ''writable'' (WritableFields ctx) []) (\<lambda>whitelist.
     thenR (whitelistAttributes c whitelist (ResAttributes res) []) (\<lambda>attributes.
     thenR (theModel ctx) (\<lambda>m.
     thenR (Assign (Meta c) attributes m) (\<lambda>m.
     assignRelationships c whitelist (ResRelationships res) (ctx\<lparr>Model := Some m\<rparr>)))))"

subsection \<open>Preloading of has-one and has-many relationships\<close>

type_synonym references = "(string \<times> (ID \<times> ID list) list) list"

definition appendEntry :: "ID \<Rightarrow> ID \<Rightarrow> (ID \<times> ID list) list \<Rightarrow> (ID \<times> ID list) list" where
  "appendEntry modelID ref entry =
     AList.update modelID
       ((case map_of entry modelID of None \<Rightarrow> [] | Some refs \<Rightarrow> refs) @ [ref]) entry"

definition collectReference :: "meta \<Rightarrow> field \<Rightarrow> ID \<Rightarrow> model \<Rightarrow> (ID \<times> ID list) list \<Rightarrow> (ID \<times> ID list) list" where
  "collectReference rcm rel modelID reference entry =
     (let entry1 =
        (if ToOne rel
         then (let rid = (case docGet rcm reference (BSONField rel) of VID r \<Rightarrow> r | _ \<Rightarrow> 0)
               in if rid \<noteq> 0 \<and> rid = modelID
                  then appendEntry modelID (DocID reference) entry else entry)
         else entry)
      in if ToMany rel
         then (let rids = (case docGet rcm reference (BSONField rel) of VIDs ids \<Rightarrow> ids | _ \<Rightarrow> [])
               in fold (\<lambda>rid e. if rid \<noteq> 0 \<and> rid = modelID
                                then appendEntry modelID (DocID reference) e else e) rids entry1)
         else entry1)"

definition collectReferences :: "meta \<Rightarrow> field \<Rightarrow> ID list \<Rightarrow> model list \<Rightarrow> (ID \<times> ID list) list" where
  "collectReferences rcm rel modelIDs refs =
     fold (\<lambda>modelID entry. fold (collectReference rcm rel modelID) refs entry) modelIDs []"

text \<open>The body of the loop over the relationships of the descriptor.\<close>

definition preloadRelationship :: "group \<Rightarrow> Context \<Rightarrow> model list \<Rightarrow> string list \<Rightarrow> field \<Rightarrow> references \<Rightarrow> references step" where
  "preloadRelationship g ctx models whitelist fld relationships =
     (if ToOne fld \<or> ToMany fld then ok relationships
      else if \<not> Contains whitelist (RelName fld) then ok relationships
      else (case map_of g (RelType fld) of
              None \<Rightarrow> abort (GoError (''missing related controller '' @ RelType fld))
            | Some rc \<Rightarrow>
                (case Relationships (Meta rc) (RelInverse fld) of
                   None \<Rightarrow> abort (GoError (''no relationship matching the inverse name '' @ RelInverse fld))
                 | Some rel \<Rightarrow>
                     (let modelIDs = map DocID models;
                          query = [(BSONField rel, In (map VID modelIDs))]
                      in
                      andThen (if SoftDelete rc
                               then andThen (abortIf (L (Meta rc) ''fire-soft-delete'')) (\<lambda>softDeleteField.
                                    ok (AList.update (F (Meta rc) softDeleteField) (Eq VNil) query))
                               else ok query) (\<lambda>query.
                      let filters = query # (case map_of (RelationshipFilters ctx) (Name fld) of
                                               None \<Rightarrow> [] | Some fs \<Rightarrow> fs)
                      in
                      andThen (\<lambda>w. (Inr (collFind (Meta rc) filters [] 0 0 w), w)) (\<lambda>refs.
                      ok (AList.update (RelName fld)
                            (collectReferences (Meta rc) rel modelIDs refs) relationships)))))))"

fun preloadLoop :: "group \<Rightarrow> Context \<Rightarrow> model list \<Rightarrow> string list \<Rightarrow> field list \<Rightarrow> references \<Rightarrow> references step" where
  "preloadLoop g ctx models whitelist [] relationships w = (Inr relationships, w)"
| "preloadLoop g ctx models whitelist (fld # rest) relationships w =
     (case preloadRelationship g ctx models whitelist fld relationships w of
        (Inl e, w') \<Rightarrow> (Inl e, w')
      | (Inr relationships', w') \<Rightarrow> preloadLoop g ctx models whitelist rest relationships' w')"

definition preloadRelationships :: "controller \<Rightarrow> group \<Rightarrow> Context \<Rightarrow> model list \<Rightarrow> references step" where
  "preloadRelationships c g ctx models =
     andThen (abortIf (relationshipKeys (Meta c) (ReadableFields ctx) [])) (\<lambda>whitelist.
     preloadLoop g ctx models whitelist (RelationshipList (Meta c)) [])"

subsection \<open>Resource assembly\<close>

text \<open>\<open>jsonapi.StructToMap\<close>: the attributes of the model whose JSON key is whitelisted.\<close>

definition StructToMap :: "meta \<Rightarrow> model \<Rightarrow> string list \<Rightarrow> (string \<times> val) list" where
  "StructToMap mt m whitelist =
     map (\<lambda>f. (JSONKey f, Values m (Name f)))
         (filter (\<lambda>f. JSONKey f \<noteq> [] \<and> Contains whitelist (JSONKey f)) (OrderedFields mt))"

definition reference :: "string \<Rightarrow> ID \<Rightarrow> resource" where
  "reference relType i = Resource relType (Hex i) [] []"

definition preloaded :: "references \<Rightarrow> string \<Rightarrow> ID \<Rightarrow> ID list" where
  "preloaded relationships name i =
     (case map_of relationships name of
        None \<Rightarrow> []
      | Some entry \<Rightarrow> (case map_of entry i of None \<Rightarrow> [] | Some refs \<Rightarrow> refs))"

text \<open>
  The body of the loop over the relationships in \<open>constructResource\<close>: the
  document of one relationship, or nothing for a field of no cardinality.
\<close>

definition constructRelationship :: "controller \<Rightarrow> model \<Rightarrow> references option \<Rightarrow> string \<Rightarrow> field \<Rightarrow> err + document option" where
  "constructRelationship c m relationships base fld =
     (let lnks = noLinks\<lparr>Self := base @ ''/relationships/'' @ RelName fld,
                         Related := base @ ''/'' @ RelName fld\<rparr>
      in
      if ToOne fld then
        (if Optional fld
         then thenR (thenR (MustGet (Meta c) m (Name fld)) asOptID) (\<lambda>oid.
              Inr (Some (Document (Some (Hybrid (map_option (reference (RelType fld)) oid) []))
                                  (Some lnks))))
         else thenR (thenR (MustGet (Meta c) m (Name fld)) asID) (\<lambda>i.
              Inr (Some (Document (Some (Hybrid (Some (reference (RelType fld) i)) []))
                                  (Some lnks)))))
      else if ToMany fld then
        thenR (thenR (MustGet (Meta c) m (Name fld)) asIDs) (\<lambda>ids.
        Inr (Some (Document (Some (Hybrid None (map (reference (RelType fld)) ids))) (Some lnks))))
      else if HasOne fld then
        (case relationships of
           None \<Rightarrow> Inr (Some (Document (Some (Hybrid None [])) (Some lnks)))
         | Some rels \<Rightarrow>
             (let refs = preloaded rels (RelName fld) (DocID m)
              in if length refs > 1
                 then Inl (GoError ''has one relationship returned more than one result'')
                 else Inr (Some (Document
                        (Some (Hybrid (if length refs = 1
                                       then Some (reference (RelType fld) (refs ! 0)) else None) []))
                        (Some lnks)))))
      else if HasMany fld then
        (case relationships of
           None \<Rightarrow> Inr (Some (Document (Some (Hybrid None [])) (Some lnks)))
         | Some rels \<Rightarrow>
             Inr (Some (Document
                    (Some (Hybrid None (map (reference (RelType fld))
                                            (preloaded rels (RelName fld) (DocID m)))))
                    (Some lnks))))
      else Inr None)"

fun constructRelationships :: "controller \<Rightarrow> model \<Rightarrow> references option \<Rightarrow> string list \<Rightarrow> string \<Rightarrow> field list \<Rightarrow> (string \<times> document) list \<Rightarrow> err + (string \<times> document) list" where
  "constructRelationships c m relationships whitelist base [] docs = Inr docs"
| "constructRelationships c m relationships whitelist base (fld # rest) docs =
     (if \<not> Contains whitelist (RelName fld)
      then constructRelationships c m relationships whitelist base rest docs
      else (case constructRelationship c m relationships base fld of
              Inl e \<Rightarrow> Inl e
            | Inr None \<Rightarrow> constructRelationships c m relationships whitelist base rest docs
            | Inr (Some d) \<Rightarrow>
                constructRelationships c m relationships whitelist base rest
                  (AList.update (RelName fld) d docs)))"

definition constructResource :: "controller \<Rightarrow> Context \<Rightarrow> model \<Rightarrow> references option \<Rightarrow> err + resource" where
  "constructResource c ctx m relationships =
     thenR (fieldKeys (Meta c) ''readable'' (ReadableFields ctx) []) (\<lambda>whitelist.
     let attrs = StructToMap (Meta c) m whitelist;
         base = (if Prefix (JSONAPIRequest ctx) \<noteq> [] then ''/'' @ Prefix (JSONAPIRequest ctx) else [])
                @ ''/'' @ PluralName (Meta c) @ ''/'' @ Hex (DocID m)
     in
     thenR (constructRelationships c m relationships whitelist base (RelationshipList (Meta c)) []) (\<lambda>docs.
     Inr (Resource (PluralName (Meta c)) (Hex (DocID m)) attrs docs)))"

definition resourceForModel :: "controller \<Rightarrow> Context \<Rightarrow> model \<Rightarrow> references option \<Rightarrow> err + resource" where
  "resourceForModel c ctx m relationships = constructResource c ctx m relationships"

fun resourcesForModels :: "controller \<Rightarrow> Context \<Rightarrow> model list \<Rightarrow> references option \<Rightarrow> err + resource list" where
  "resourcesForModels c ctx [] relationships = Inr []"
| "resourcesForModels c ctx (m # models) relationships =
     (case constructResource c ctx m relationships of
        Inl e \<Rightarrow> Inl e
      | Inr r \<Rightarrow>
          (case resourcesForModels c ctx models relationships of
             Inl e \<Rightarrow> Inl e
           | Inr rs \<Rightarrow> Inr (r # rs)))"

subsection \<open>Pagination links\<close>

fun showNat :: "nat \<Rightarrow> string" where
  "showNat n =
     (if n < 10 then [''0123456789'' ! n]
      else showNat (n div 10) @ [''0123456789'' ! (n mod 10)])"

declare showNat.simps [simp del]

definition showInt :: "int \<Rightarrow> string" where
  "showInt i = (if i < 0 then ''-'' @ showNat (nat (- i)) else showNat (nat i))"

definition pageLink :: "string \<Rightarrow> int \<Rightarrow> int \<Rightarrow> string" where
  "pageLink self number pageSize =
     self @ ''?page[number]='' @ showInt number @ ''&page[size]='' @ showInt pageSize"

text \<open>
  \<open>int64(math.Ceil(float64(count) / float64(pageSize)))\<close>.  The quotient is taken in
  the reals: the conversions to \<open>float64\<close> and the division are exact enough for
  the ceiling as long as the count stays below \<open>2^53\<close>.
\<close>

definition lastPage :: "int \<Rightarrow> int \<Rightarrow> int" where
  "lastPage count pageSize = \<lceil>real_of_int count / real_of_int pageSize\<rceil>"

definition listLinks :: "controller \<Rightarrow> string \<Rightarrow> Context \<Rightarrow> links step" where
  "listLinks c self ctx =
     (let req = JSONAPIRequest ctx
      in if PageNumber req > 0 \<and> PageSize req > 0
         then andThen (db (Manager_Count (Meta c) (HasTransaction ctx) (Query ctx) 0 0 False)) (\<lambda>count.
              ok (noLinks\<lparr>
                    Self := pageLink self (PageNumber req) (PageSize req),
                    First := pageLink self 1 (PageSize req),
                    Last := pageLink self (lastPage count (PageSize req)) (PageSize req),
                    Previous := (if PageNumber req > 1
                                 then pageLink self (PageNumber req - 1) (PageSize req) else []),
                    Next := (if PageNumber req < lastPage count (PageSize req)
                             then pageLink self (PageNumber req + 1) (PageSize req) else [])\<rparr>))
         else ok (noLinks\<lparr>Self := self\<rparr>))"

subsection \<open>Operation handlers\<close>

text \<open>
  The handlers run under a timeout context; deadlines are not part of the
  embedding.  A write to the store that reports a duplicate key aborts with a
  conflict, any other storage error aborts as it is.
\<close>

definition abortIfDuplicate :: "(world \<Rightarrow> (dberr + 'a) \<times> world) \<Rightarrow> 'a step" where
  "abortIfDuplicate f w =
     (case f w of
        (Inl e, w') \<Rightarrow>
          (if IsDuplicate e then Inl (ErrorFromStatus StatusConflict ''document is not unique'')
           else Inl (dbError e), w')
      | (Inr x, w') \<Rightarrow> (Inr x, w'))"

text \<open>\<open>ctx.Request.Data.One\<close> when both are present.\<close>

definition requestOne :: "document \<Rightarrow> resource option" where
  "requestOne doc = (case Data doc of None \<Rightarrow> None | Some h \<Rightarrow> One h)"

definition one :: "resource \<Rightarrow> string \<Rightarrow> document" where
  "one r self = Document (Some (Hybrid (Some r) [])) (Some (noLinks\<lparr>Self := self\<rparr>))"

definition listResources :: "controller \<Rightarrow> group \<Rightarrow> Context \<Rightarrow> Context step" where
  "listResources c g ctx =
     andThen (loadModels c ctx) (\<lambda>ctx.
     andThen (runCallbacks (Decorators c) StatusInternalServerError ctx) (\<lambda>ctx.
     andThen (preloadRelationships c g ctx (Models ctx)) (\<lambda>relationships.
     andThen (abortIf (resourcesForModels c ctx (Models ctx) (Some relationships))) (\<lambda>rs.
     andThen (listLinks c (SelfOf (JSONAPIRequest ctx)) ctx) (\<lambda>lnks.
     runCallbacks (Notifiers c) StatusInternalServerError
       (ctx\<lparr>Response := Some (Document (Some (Hybrid None rs)) (Some lnks)),
             ResponseCode := StatusOK\<rparr>))))))"

text \<open>
  The common end of \<open>findResource\<close> and \<open>updateResource\<close>: decorators, preloading,
  the resource of the model as the response with the status 200, notifiers.
\<close>

definition respondResource :: "controller \<Rightarrow> group \<Rightarrow> Context \<Rightarrow> Context step" where
  "respondResource c g ctx =
     andThen (runCallbacks (Decorators c) StatusInternalServerError ctx) (\<lambda>ctx.
     andThen (abortIf (theModel ctx)) (\<lambda>m.
     andThen (preloadRelationships c g ctx [m]) (\<lambda>relationships.
     andThen (abortIf (resourceForModel c ctx m (Some relationships))) (\<lambda>r.
     runCallbacks (Notifiers c) StatusInternalServerError
       (ctx\<lparr>Response := Some (one r (SelfOf (JSONAPIRequest ctx))),
             ResponseCode := StatusOK\<rparr>)))))"

text \<open>
  The end of \<open>createResource\<close>: decorators, the resource of the model without
  preloaded relationships as the response with the status 201, notifiers.
\<close>

definition respondCreated :: "controller \<Rightarrow> group \<Rightarrow> Context \<Rightarrow> Context step" where
  "respondCreated c g ctx =
     andThen (runCallbacks (Decorators c) StatusInternalServerError ctx) (\<lambda>ctx.
     andThen (abortIf (theModel ctx)) (\<lambda>m.
     andThen (abortIf (resourceForModel c ctx m None)) (\<lambda>r.
     runCallbacks (Notifiers c) StatusInternalServerError
       (ctx\<lparr>Response := Some (one r (SelfOf (JSONAPIRequest ctx) @ ''/'' @ Hex (DocID m))),
             ResponseCode := StatusCreated\<rparr>))))"

definition findResource :: "controller \<Rightarrow> group \<Rightarrow> Context \<Rightarrow> Context step" where
  "findResource c g ctx =
     andThen (loadModel c ctx) (\<lambda>ctx.
     respondResource c g ctx)"

definition createResource :: "controller \<Rightarrow> group \<Rightarrow> Context \<Rightarrow> Context step" where
  "createResource c g ctx =
     (case Request ctx of
        None \<Rightarrow> abort (Panic ''nil pointer dereference'')
      | Some doc \<Rightarrow>
     (case requestOne doc of
        None \<Rightarrow> abort (BadRequest ''missing document'')
      | Some res \<Rightarrow>
     if ResType res \<noteq> ResourceType (JSONAPIRequest ctx)
     then abort (BadRequest ''resource type mismatch'')
     else if ResID res \<noteq> [] then abort (BadRequest ''unnecessary resource id'')
     else
     andThen (runCallbacks (Authorizers c) StatusUnauthorized ctx) (\<lambda>ctx.
     andThen New (\<lambda>i.
     andThen (abortIf (assignData c (ctx\<lparr>Model := Some ((Make (Meta c))\<lparr>DocID := i\<rparr>)\<rparr>) res)) (\<lambda>ctx.
     andThen (runCallbacks (Validators c) StatusBadRequest ctx) (\<lambda>ctx.
     andThen (if ConsistentUpdate c
              then andThen (abortIf (L (Meta c) ''fire-consistent-update'')) (\<lambda>consistentUpdateField.
                   andThen New (\<lambda>t.
                   andThen (abortIf (thenR (theModel ctx) (\<lambda>m.
                              MustSet (Meta c) m consistentUpdateField (VStr (Hex t))))) (\<lambda>m.
                   ok (ctx\<lparr>Model := Some m\<rparr>))))
              else ok ctx) (\<lambda>ctx.
     andThen (if IdempotentCreate c
              then andThen (abortIf (L (Meta c) ''fire-idempotent-create'')) (\<lambda>idempotentCreateField.
                   andThen (abortIf (theModel ctx)) (\<lambda>m.
                   andThen (abortIf (thenR (MustGet (Meta c) m idempotentCreateField) asString))
                     (\<lambda>idempotentCreateToken.
                   if idempotentCreateToken = []
                   then abort (BadRequest ''missing idempotent create token'')
                   else
                   andThen (abortIfDuplicate
                              (Manager_InsertIfMissing (Meta c) (HasTransaction ctx)
                                 [[(idempotentCreateField, Eq (VStr idempotentCreateToken))]] m))
                     (\<lambda>(inserted, m).
                   if \<not> inserted
                   then abort (ErrorFromStatus StatusConflict
                                 ''existing document with same idempotent create token'')
                   else ok (ctx\<lparr>Model := Some m\<rparr>)))))
              else andThen (abortIf (theModel ctx)) (\<lambda>m.
                   andThen (abortIfDuplicate (Manager_Insert (Meta c) m)) (\<lambda>m.
                   ok (ctx\<lparr>Model := Some m\<rparr>)))) (\<lambda>ctx.
     respondCreated c g ctx))))))))"

definition updateResource :: "controller \<Rightarrow> group \<Rightarrow> Context \<Rightarrow> Context step" where
  "updateResource c g ctx =
     (case Request ctx of
        None \<Rightarrow> abort (Panic ''nil pointer dereference'')
      | Some doc \<Rightarrow>
     (case requestOne doc of
        None \<Rightarrow> abort (BadRequest ''missing document'')
      | Some res \<Rightarrow>
     if ResType res \<noteq> ResourceType (JSONAPIRequest ctx)
     then abort (BadRequest ''resource type mismatch'')
     else if ResID res \<noteq> ResourceID (JSONAPIRequest ctx)
     then abort (BadRequest ''resource id mismatch'')
     else
     andThen (loadModel c ctx) (\<lambda>ctx.
     andThen (if IdempotentCreate c
              then abortIf (thenR (L (Meta c) ''fire-idempotent-create'') (\<lambda>idempotentCreateField.
                            thenR (theModel ctx) (\<lambda>m.
                            thenR (MustGet (Meta c) m idempotentCreateField) asString)))
              else ok []) (\<lambda>storedIdempotentCreateToken.
     andThen (if ConsistentUpdate c
              then abortIf (thenR (L (Meta c) ''fire-consistent-update'') (\<lambda>consistentUpdateField.
                            thenR (theModel ctx) (\<lambda>m.
                            thenR (thenR (MustGet (Meta c) m consistentUpdateField) asString) (\<lambda>token.
                            thenR (MustSet (Meta c) m consistentUpdateField (VStr [])) (\<lambda>m.
                            Inr (token, ctx\<lparr>Model := Some m\<rparr>))))))
              else ok ([], ctx)) (\<lambda>(storedConsistentUpdateToken, ctx).
     andThen (abortIf (assignData c ctx res)) (\<lambda>ctx.
     andThen (if IdempotentCreate c
              then abortIf (thenR (L (Meta c) ''fire-idempotent-create'') (\<lambda>idempotentCreateField.
                            thenR (theModel ctx) (\<lambda>m.
                            thenR (thenR (MustGet (Meta c) m idempotentCreateField) asString)
                              (\<lambda>idempotentCreateToken.
                            if storedIdempotentCreateToken \<noteq> idempotentCreateToken
                            then Inl (BadRequest ''idempotent create token cannot be changed'')
                            else Inr ()))))
              else ok ()) (\<lambda>u.
     andThen (runCallbacks (Validators c) StatusBadRequest ctx) (\<lambda>ctx.
     andThen (if ConsistentUpdate c
              then andThen (abortIf (L (Meta c) ''fire-consistent-update'')) (\<lambda>consistentUpdateField.
                   andThen (abortIf (theModel ctx)) (\<lambda>m.
                   andThen (abortIf (thenR (MustGet (Meta c) m consistentUpdateField) asString))
                     (\<lambda>consistentUpdateToken.
                   if consistentUpdateToken \<noteq> storedConsistentUpdateToken
                   then abort (BadRequest ''invalid consistent update token'')
                   else
                   andThen New (\<lambda>t.
                   andThen (abortIf (MustSet (Meta c) m consistentUpdateField (VStr (Hex t)))) (\<lambda>m.
                   andThen (abortIfDuplicate
                              (Manager_ReplaceFirst (Meta c) (HasTransaction ctx)
                                 [[(''_id'', Eq (VID (DocID m))),
                                   (consistentUpdateField, Eq (VStr consistentUpdateToken))]] m False))
                     (\<lambda>(updated, m).
                   if \<not> updated
                   then abort (ErrorFromStatus StatusConflict
                                 ''existing document with different consistent update token'')
                   else ok (ctx\<lparr>Model := Some m\<rparr>)))))))
              else andThen (abortIf (theModel ctx)) (\<lambda>m.
                   andThen (abortIfDuplicate (Manager_Replace (Meta c) (HasTransaction ctx) m False))
                     (\<lambda>(found, m).
                   ok (ctx\<lparr>Model := Some m\<rparr>)))) (\<lambda>ctx.
     respondResource c g ctx)))))))))"

definition deleteResource :: "controller \<Rightarrow> group \<Rightarrow> Context \<Rightarrow> Context step" where
  "deleteResource c g ctx =
     andThen (loadModel c ctx) (\<lambda>ctx.
     andThen (runCallbacks (Validators c) StatusBadRequest ctx) (\<lambda>ctx.
     andThen (abortIf (theModel ctx)) (\<lambda>m.
     andThen (if SoftDelete c
              then andThen (abortIf (L (Meta c) ''fire-soft-delete'')) (\<lambda>softDeleteField.
                   (\<lambda>w. db (Manager_Update (Meta c) (HasTransaction ctx) (DocID m)
                               [(softDeleteField, VTime (Now w))] False) w))
              else db (Manager_Delete (Meta c) (DocID m))) (\<lambda>found.
     andThen (runCallbacks (Notifiers c) StatusInternalServerError ctx) (\<lambda>ctx.
     ok (ctx\<lparr>WrittenHeader := Some StatusNoContent\<rparr>))))))"

text \<open>
  The common end of the relationship handlers: decorators, preloading, the
  resource of the model, the document of the requested relationship, notifiers.
\<close>

definition respondRelationship :: "controller \<Rightarrow> group \<Rightarrow> Context \<Rightarrow> Context step" where
  "respondRelationship c g ctx =
     andThen (runCallbacks (Decorators c) StatusInternalServerError ctx) (\<lambda>ctx.
     andThen (abortIf (theModel ctx)) (\<lambda>m.
     andThen (preloadRelationships c g ctx [m]) (\<lambda>relationships.
     andThen (abortIf (resourceForModel c ctx m (Some relationships))) (\<lambda>r.
     runCallbacks (Notifiers c) StatusInternalServerError
       (ctx\<lparr>Response := map_of (ResRelationships r) (Relationship (JSONAPIRequest ctx)),
             ResponseCode := StatusOK\<rparr>)))))"

definition getRelationship :: "controller \<Rightarrow> group \<Rightarrow> Context \<Rightarrow> Context step" where
  "getRelationship c g ctx =
     (case Relationships (Meta c) (Relationship (JSONAPIRequest ctx)) of
        None \<Rightarrow> abort (BadRequest ''invalid relationship'')
      | Some fld \<Rightarrow>
          andThen (loadModel c ctx) (\<lambda>ctx.
          if \<not> Contains (ReadableFields ctx) (Name fld)
          then abort (BadRequest ''relationship is not readable'')
          else respondRelationship c g ctx))"

text \<open>The write of the changed model and the response of the relationship handlers.\<close>

definition replaceAndRespond :: "controller \<Rightarrow> group \<Rightarrow> Context \<Rightarrow> Context step" where
  "replaceAndRespond c g ctx =
     andThen (runCallbacks (Validators c) StatusBadRequest ctx) (\<lambda>ctx.
     andThen (abortIf (theModel ctx)) (\<lambda>m.
     andThen (abortIfDuplicate (Manager_Replace (Meta c) (HasTransaction ctx) m False)) (\<lambda>(found, m).
     respondRelationship c g (ctx\<lparr>Model := Some m\<rparr>))))"

definition setRelationship :: "controller \<Rightarrow> group \<Rightarrow> Context \<Rightarrow> Context step" where
  "setRelationship c g ctx =
     (if ConsistentUpdate c
      then abort (ErrorFromStatus StatusMethodNotAllowed
                    ''partial updates not allowed with consistent updates'')
      else
      (case Relationships (Meta c) (Relationship (JSONAPIRequest ctx)) of
         None \<Rightarrow> abort (BadRequest ''invalid relationship'')
       | Some rel \<Rightarrow>
           if \<not> ToOne rel \<and> \<not> ToMany rel then abort (BadRequest ''invalid relationship'')
           else
           andThen (loadModel c ctx) (\<lambda>ctx.
           if \<not> Contains (WritableFields ctx) (Name rel)
           then abort (BadRequest ''relationship is not writable'')
           else
           (case Request ctx of
              None \<Rightarrow> abort (Panic ''nil pointer dereference'')
            | Some doc \<Rightarrow>
                andThen (abortIf (assignRelationship c ctx doc rel)) (\<lambda>ctx.
                replaceAndRespond c g ctx)))))"

fun appendReferences :: "meta \<Rightarrow> field \<Rightarrow> resource list \<Rightarrow> model \<Rightarrow> err + model" where
  "appendReferences mt rel [] m = Inr m"
| "appendReferences mt rel (ref # refs) m =
     (if ResType ref \<noteq> RelType rel then Inl (BadRequest ''resource type mismatch'')
      else (case FromHex (ResID ref) of
              None \<Rightarrow> Inl (BadRequest ''invalid relationship id'')
            | Some refID \<Rightarrow>
                (case thenR (MustGet mt m (Name rel)) asIDs of
                   Inl e \<Rightarrow> Inl e
                 | Inr ids \<Rightarrow>
                     if ContainsID ids refID then appendReferences mt rel refs m
                     else (case MustSet mt m (Name rel) (VIDs (ids @ [refID])) of
                             Inl e \<Rightarrow> Inl e
                           | Inr m' \<Rightarrow> appendReferences mt rel refs m'))))"

text \<open>The position of the last occurrence of an id, or the initial mark.\<close>

fun mark :: "ID \<Rightarrow> ID list \<Rightarrow> nat \<Rightarrow> int \<Rightarrow> int" where
  "mark refID [] i pos = pos"
| "mark refID (x # ids) i pos = mark refID ids (Suc i) (if x = refID then int i else pos)"

fun removeReferences :: "meta \<Rightarrow> field \<Rightarrow> resource list \<Rightarrow> model \<Rightarrow> err + model" where
  "removeReferences mt rel [] m = Inr m"
| "removeReferences mt rel (ref # refs) m =
     (if ResType ref \<noteq> RelType rel then Inl (BadRequest ''resource type mismatch'')
      else (case FromHex (ResID ref) of
              None \<Rightarrow> Inl (BadRequest ''invalid relationship id'')
            | Some refID \<Rightarrow>
                (case thenR (MustGet mt m (Name rel)) asIDs of
                   Inl e \<Rightarrow> Inl e
                 | Inr ids \<Rightarrow>
                     (let pos = mark refID ids 0 (- 1)
                      in if pos \<ge> 0
                         then (case MustSet mt m (Name rel)
                                      (VIDs (take (nat pos) ids @ drop (nat pos + 1) ids)) of
                                 Inl e \<Rightarrow> Inl e
                               | Inr m' \<Rightarrow> removeReferences mt rel refs m')
                         else removeReferences mt rel refs m))))"

text \<open>\<open>ctx.Request.Data.Many\<close>; a missing document or data is a nil pointer dereference.\<close>

definition requestMany :: "Context \<Rightarrow> err + resource list" where
  "requestMany ctx =
     (case Request ctx of
        None \<Rightarrow> Inl (Panic ''nil pointer dereference'')
      | Some doc \<Rightarrow>
          (case Data doc of
             None \<Rightarrow> Inl (Panic ''nil pointer dereference'')
           | Some h \<Rightarrow> Inr (Many h)))"

definition appendToRelationship :: "controller \<Rightarrow> group \<Rightarrow> Context \<Rightarrow> Context step" where
  "appendToRelationship c g ctx =
     (if ConsistentUpdate c
      then abort (ErrorFromStatus StatusMethodNotAllowed
                    ''partial updates not allowed with consistent updates'')
      else
      (case Relationships (Meta c) (Relationship (JSONAPIRequest ctx)) of
         None \<Rightarrow> abort (BadRequest ''invalid relationship'')
       | Some rel \<Rightarrow>
           if \<not> ToMany rel then abort (BadRequest ''invalid relationship'')
           else
           andThen (loadModel c ctx) (\<lambda>ctx.
           if \<not> Contains (WritableFields ctx) (Name rel)
           then abort (BadRequest ''relationship is not writable'')
           else
           andThen (abortIf (requestMany ctx)) (\<lambda>refs.
           andThen (abortIf (theModel ctx)) (\<lambda>m.
           andThen (abortIf (appendReferences (Meta c) rel refs m)) (\<lambda>m.
           replaceAndRespond c g (ctx\<lparr>Model := Some m\<rparr>)))))))"

definition removeFromRelationship :: "controller \<Rightarrow> group \<Rightarrow> Context \<Rightarrow> Context step" where
  "removeFromRelationship c g ctx =
     (if ConsistentUpdate c
      then abort (ErrorFromStatus StatusMethodNotAllowed
                    ''partial updates not allowed with consistent updates'')
      else
      (case Relationships (Meta c) (Relationship (JSONAPIRequest ctx)) of
         None \<Rightarrow> abort (BadRequest ''invalid relationship'')
       | Some rel \<Rightarrow>
           if \<not> ToMany rel then abort (BadRequest ''invalid relationship'')
           else
           andThen (loadModel c ctx) (\<lambda>ctx.
           if \<not> Contains (WritableFields ctx) (Name rel)
           then abort (BadRequest ''relationship is not writable'')
           else
           andThen (abortIf (requestMany ctx)) (\<lambda>refs.
           andThen (abortIf (theModel ctx)) (\<lambda>m.
           andThen (abortIf (removeReferences (Meta c) rel refs m)) (\<lambda>m.
           replaceAndRespond c g (ctx\<lparr>Model := Some m\<rparr>)))))))"

definition handleCollectionAction :: "controller \<Rightarrow> group \<Rightarrow> Context \<Rightarrow> Context step" where
  "handleCollectionAction c g ctx =
     (case map_of (CollectionActions c) (ReqCollectionAction (JSONAPIRequest ctx)) of
        None \<Rightarrow> abort (GoError ''missing collection action callback'')
      | Some a \<Rightarrow>
          andThen (runCallbacks (Authorizers c) StatusUnauthorized ctx) (\<lambda>ctx.
          runAction a ctx StatusBadRequest))"

definition handleResourceAction :: "controller \<Rightarrow> group \<Rightarrow> Context \<Rightarrow> Context step" where
  "handleResourceAction c g ctx =
     (case map_of (ResourceActions c) (ReqResourceAction (JSONAPIRequest ctx)) of
        None \<Rightarrow> abort (GoError ''missing resource action callback'')
      | Some a \<Rightarrow>
          andThen (loadModel c ctx) (\<lambda>ctx.
          runAction a ctx StatusBadRequest))"

subsection \<open>Dispatch and the transaction boundary\<close>

text \<open>
  Modelled from the spec: \<open>Store.T\<close> is not under src/.  A transaction runs the
  operation and commits on success; any abort rolls the documents back.  A call
  inside a running transaction joins it.
\<close>

definition T :: "bool \<Rightarrow> 'a step \<Rightarrow> 'a step" where
  "T inTransaction f w =
     (if inTransaction then f w
      else (case f w of
              (Inl e, w') \<Rightarrow> (Inl e, w'\<lparr>Colls := Colls w\<rparr>)
            | (Inr x, w') \<Rightarrow> (Inr x, w')))"

fun operationOf :: "intent \<Rightarrow> operation" where
  "operationOf ListResources = List"
| "operationOf FindResource = Find"
| "operationOf CreateResource = Create"
| "operationOf UpdateResource = Update"
| "operationOf DeleteResource = Delete"
| "operationOf GetRelatedResources = Find"
| "operationOf GetRelationship = Find"
| "operationOf SetRelationship = Update"
| "operationOf AppendToRelationship = Update"
| "operationOf RemoveFromRelationship = Update"
| "operationOf JCollectionAction = CollectionAction"
| "operationOf JResourceAction = ResourceAction"

text \<open>
  \<open>handle\<close> on a request that is already parsed, with the dispatch of
  \<open>runOperation\<close> as a parameter.  The request document is part of the context;
  a missing one where the intent expects it stands for a body that does not parse.
  The response is left in the context.
\<close>

definition handleWith :: "(controller \<Rightarrow> group \<Rightarrow> Context \<Rightarrow> Context step) \<Rightarrow> controller \<Rightarrow> group \<Rightarrow> Context \<Rightarrow> bsonM option \<Rightarrow> Context step" where
  "handleWith run c g ctx selector =
     (if Request ctx = None \<and> DocumentExpected (Intent (JSONAPIRequest ctx))
      then abort (BadRequest ''invalid document'')
      else if ResourceID (JSONAPIRequest ctx) \<noteq> [] \<and> \<not> IsHex (ResourceID (JSONAPIRequest ctx))
      then abort (BadRequest ''invalid resource id'')
      else if \<not> Supported c (ctx\<lparr>Operation := operationOf (Intent (JSONAPIRequest ctx))\<rparr>)
      then abort (ErrorFromStatus StatusMethodNotAllowed ''unsupported operation'')
      else
      andThen (abortIf (initialFields c (Some (JSONAPIRequest ctx)))) (\<lambda>readable.
      andThen (abortIf (initialFields c None)) (\<lambda>writable.
      let ctx = ctx\<lparr>Operation := operationOf (Intent (JSONAPIRequest ctx)),
                    Selector := (case selector of None \<Rightarrow> [] | Some s \<Rightarrow> s),
                    Filters := [],
                    ReadableFields := readable,
                    WritableFields := writable,
                    RelationshipFilters := []\<rparr>
      in if \<not> Action (Operation ctx)
         then T (HasTransaction ctx) (run c g (ctx\<lparr>HasTransaction := True\<rparr>))
         else run c g ctx)))"

text \<open>\<open>strings.Replace(s, old, new, 1)\<close>.\<close>

fun ReplaceOnce :: "string \<Rightarrow> string \<Rightarrow> string \<Rightarrow> string" where
  "ReplaceOnce [] old new = (if old = [] then new else [])"
| "ReplaceOnce (x # xs) old new =
     (if take (length old) (x # xs) = old then new @ drop (length old) (x # xs)
      else x # ReplaceOnce xs old new)"

text \<open>The context of a virtual sub-request on a related controller.\<close>

definition subContext :: "Context \<Rightarrow> request \<Rightarrow> Context" where
  "subContext ctx req =
     \<lparr> Operation = List, Selector = [], Filters = [], Sorting = [],
       ReadableFields = [], WritableFields = [], RelationshipFilters = [],
       Model = None, Models = [], Original = None,
       JSONAPIRequest = req, Request = None, Response = None, ResponseCode = 0,
       WrittenHeader = None, HasTransaction = HasTransaction ctx \<rparr>"

text \<open>
  After a to-one or has-one sub-request: more than one result aborts, a single
  result becomes the resource of the response, and the list is unset.
\<close>

definition pullOut :: "string \<Rightarrow> Context \<Rightarrow> err + Context" where
  "pullOut msg subCtx =
     (case Response subCtx of
        None \<Rightarrow> Inl (Panic ''nil pointer dereference'')
      | Some doc \<Rightarrow>
          (case Data doc of
             None \<Rightarrow> Inl (Panic ''nil pointer dereference'')
           | Some h \<Rightarrow>
               if length (Many h) > 1 then Inl (GoError msg)
               else Inr (subCtx\<lparr>Response := Some (Document
                           (Some (Hybrid (if length (Many h) = 1 then Some (Many h ! 0) else One h) []))
                           (Links doc))\<rparr>)))"

text \<open>
  The sub-requests of \<open>getRelatedResources\<close> carry the intent \<open>ListResources\<close>, so the
  dispatch inside \<open>handle\<close> of the related controller goes to \<open>listResources\<close>.
\<close>

definition getRelatedResources :: "controller \<Rightarrow> group \<Rightarrow> Context \<Rightarrow> Context step" where
  "getRelatedResources c g ctx =
     (case Relationships (Meta c) (RelatedResource (JSONAPIRequest ctx)) of
        None \<Rightarrow> abort (BadRequest ''invalid relationship'')
      | Some rel \<Rightarrow>
     andThen (loadModel c ctx) (\<lambda>ctx.
     if \<not> Contains (ReadableFields ctx) (Name rel)
     then abort (BadRequest ''relationship is not readable'')
     else
     (case map_of g (RelType rel) of
        None \<Rightarrow> abort (GoError (''missing related controller for '' @ RelType rel))
      | Some rc \<Rightarrow>
     andThen (abortIf (theModel ctx)) (\<lambda>m.
     let req = (JSONAPIRequest ctx)\<lparr>Intent := ListResources, ResourceType := RelType rel,
                                     ResourceID := [], RelatedResource := []\<rparr>;
         subCtx = subContext ctx req
     in
     andThen (if ToOne rel
              then andThen New (\<lambda>fresh.
                   andThen (abortIf (if Optional rel
                                     then thenR (thenR (MustGet (Meta c) m (Name rel)) asOptID) (\<lambda>oid.
                                          Inr (case oid of None \<Rightarrow> fresh | Some i \<Rightarrow> i))
                                     else thenR (MustGet (Meta c) m (Name rel)) asID)) (\<lambda>i.
                   andThen (handleWith listResources rc g subCtx (Some [(''_id'', Eq (VID i))])) (\<lambda>subCtx.
                   abortIf (pullOut ''to one relationship returned more than one result'' subCtx))))
              else ok subCtx) (\<lambda>subCtx.
     andThen (if ToMany rel
              then andThen (abortIf (thenR (MustGet (Meta c) m (Name rel)) asIDs)) (\<lambda>ids.
                   handleWith listResources rc g subCtx (Some [(''_id'', In (map VID ids))]))
              else ok subCtx) (\<lambda>subCtx.
     andThen (if HasOne rel
              then (case Relationships (Meta rc) (RelInverse rel) of
                      None \<Rightarrow> abort (Panic ''nil pointer dereference'')
                    | Some inverseRel \<Rightarrow>
                        andThen (handleWith listResources rc g subCtx
                                   (Some [(BSONField inverseRel, Eq (VID (DocID m)))])) (\<lambda>subCtx.
                        abortIf (pullOut ''has one relationship returned more than one result'' subCtx)))
              else ok subCtx) (\<lambda>subCtx.
     andThen (if HasMany rel
              then (case Relationships (Meta rc) (RelInverse rel) of
                      None \<Rightarrow> abort (Panic ''nil pointer dereference'')
                    | Some inverseRel \<Rightarrow>
                        handleWith listResources rc g subCtx
                          (Some [(BSONField inverseRel, In [VID (DocID m)])]))
              else ok subCtx) (\<lambda>subCtx.
     (case Response subCtx of
        None \<Rightarrow> abort (Panic ''nil pointer dereference'')
      | Some doc \<Rightarrow>
          (case Links doc of
             None \<Rightarrow> abort (Panic ''nil pointer dereference'')
           | Some lnks \<Rightarrow>
               (let from = SelfOf (JSONAPIRequest subCtx); to = SelfOf (JSONAPIRequest ctx)
                in ok (ctx\<lparr>Response := Some (Document (Data doc) (Some
                              \<lparr> Self = ReplaceOnce (Self lnks) from to,
                                Related = ReplaceOnce (Related lnks) from to,
                                First = ReplaceOnce (First lnks) from to,
                                Previous = ReplaceOnce (Previous lnks) from to,
                                Next = ReplaceOnce (Next lnks) from to,
                                Last = ReplaceOnce (Last lnks) from to \<rparr>)),
                          ResponseCode := ResponseCode subCtx\<rparr>))))))))))))"

definition runOperation :: "controller \<Rightarrow> group \<Rightarrow> Context \<Rightarrow> Context step" where
  "runOperation c g ctx =
     (case Intent (JSONAPIRequest ctx) of
        ListResources \<Rightarrow> listResources c g ctx
      | FindResource \<Rightarrow> findResource c g ctx
      | CreateResource \<Rightarrow> createResource c g ctx
      | UpdateResource \<Rightarrow> updateResource c g ctx
      | DeleteResource \<Rightarrow> deleteResource c g ctx
      | GetRelatedResources \<Rightarrow> getRelatedResources c g ctx
      | GetRelationship \<Rightarrow> getRelationship c g ctx
      | SetRelationship \<Rightarrow> setRelationship c g ctx
      | AppendToRelationship \<Rightarrow> appendToRelationship c g ctx
      | RemoveFromRelationship \<Rightarrow> removeFromRelationship c g ctx
      | JCollectionAction \<Rightarrow> handleCollectionAction c g ctx
      | JResourceAction \<Rightarrow> handleResourceAction c g ctx)"

definition handle :: "controller \<Rightarrow> group \<Rightarrow> Context \<Rightarrow> bsonM option \<Rightarrow> Context step" where
  "handle c g ctx selector = handleWith runOperation c g ctx selector"

section \<open>Notions used to state the properties\<close>

text \<open>The number of stored documents that match the query of a context.\<close>

definition matchingCount :: "controller \<Rightarrow> Context \<Rightarrow> world \<Rightarrow> int" where
  "matchingCount c ctx w =
     int (length (filter (matches (Meta c) (Query ctx)) (Colls w (Collection (Meta c)))))"

text \<open>The stored document of a collection with a given id.\<close>

definition stored :: "world \<Rightarrow> meta \<Rightarrow> ID \<Rightarrow> model option" where
  "stored w mt i = find (\<lambda>d. DocID d = i) (Colls w (Collection mt))"

text \<open>Callbacks that accept every request and change nothing.\<close>

definition quiet :: "callback list \<Rightarrow> bool" where
  "quiet list = (\<forall>cb\<in>set list. \<forall>ctx w. Handler cb ctx w = (None, ctx, w))"

section \<open>An example group\<close>

text \<open>
  Posts with a soft-delete timestamp, both tokens and a has-one note; notes that
  belong to a post; selections with a to-many list of posts.
\<close>

definition plainField :: field where
  "plainField = \<lparr> Name = [], Kind = KString, JSONKey = [], BSONField = [], Flags = [],
     Optional = False, ToOne = False, ToMany = False, HasOne = False, HasMany = False,
     RelName = [], RelType = [], RelInverse = [] \<rparr>"

definition postMeta :: meta where
  "postMeta = \<lparr> MetaName = ''Post'', PluralName = ''posts'', Collection = ''posts'',
     OrderedFields =
       [plainField\<lparr>Name := ''Title'', JSONKey := ''title'', BSONField := ''title''\<rparr>,
        plainField\<lparr>Name := ''Deleted'', Kind := KOptTime, BSONField := ''deleted_at'',
                   Flags := [''fire-soft-delete'']\<rparr>,
        plainField\<lparr>Name := ''CreateToken'', JSONKey := ''create-token'',
                   BSONField := ''create_token'', Flags := [''fire-idempotent-create'']\<rparr>,
        plainField\<lparr>Name := ''UpdateToken'', JSONKey := ''update-token'',
                   BSONField := ''update_token'', Flags := [''fire-consistent-update'']\<rparr>,
        plainField\<lparr>Name := ''Note'', Kind := KHas, HasOne := True, RelName := ''note'',
                   RelType := ''notes'', RelInverse := ''post''\<rparr>] \<rparr>"

definition noteMeta :: meta where
  "noteMeta = \<lparr> MetaName = ''Note'', PluralName = ''notes'', Collection = ''notes'',
     OrderedFields =
       [plainField\<lparr>Name := ''Title'', JSONKey := ''title'', BSONField := ''title''\<rparr>,
        plainField\<lparr>Name := ''Deleted'', Kind := KOptTime, BSONField := ''deleted_at'',
                   Flags := [''fire-soft-delete'']\<rparr>,
        plainField\<lparr>Name := ''Post'', Kind := KID, BSONField := ''post_id'', ToOne := True,
                   RelName := ''post'', RelType := ''posts''\<rparr>] \<rparr>"

definition selectionMeta :: meta where
  "selectionMeta = \<lparr> MetaName = ''Selection'', PluralName = ''selections'',
     Collection = ''selections'',
     OrderedFields =
       [plainField\<lparr>Name := ''Name'', JSONKey := ''name'', BSONField := ''name''\<rparr>,
        plainField\<lparr>Name := ''Posts'', Kind := KIDs, BSONField := ''post_ids'', ToMany := True,
                   RelName := ''posts'', RelType := ''posts''\<rparr>] \<rparr>"

definition plainController :: "meta \<Rightarrow> controller" where
  "plainController mt = \<lparr> Meta = mt, Supported = (\<lambda>ctx. True), CFilters = [], Sorters = [],
     Authorizers = [], Validators = [], Decorators = [], Notifiers = [], ListLimit = 0,
     CollectionActions = [], ResourceActions = [], TolerateViolations = False,
     IdempotentCreate = False, ConsistentUpdate = False, SoftDelete = False \<rparr>"

definition postsController :: controller where
  "postsController = plainController postMeta"

definition notesController :: controller where
  "notesController = plainController noteMeta"

definition selectionsController :: controller where
  "selectionsController = plainController selectionMeta"

definition exampleGroup :: group where
  "exampleGroup = [(''posts'', postsController), (''notes'', notesController), (''selections'', selectionsController)]"

definition postDoc :: "ID \<Rightarrow> string \<Rightarrow> string \<Rightarrow> string \<Rightarrow> model" where
  "postDoc i title createToken updateToken = \<lparr> DocID = i, Lock = 0,
     Values = (\<lambda>name. if name = ''Title'' then VStr title
                        else if name = ''CreateToken'' then VStr createToken
                        else if name = ''UpdateToken'' then VStr updateToken
                        else VNil) \<rparr>"

definition noteDoc :: "ID \<Rightarrow> string \<Rightarrow> ID \<Rightarrow> model" where
  "noteDoc i title p = \<lparr> DocID = i, Lock = 0,
     Values = (\<lambda>name. if name = ''Title'' then VStr title
                        else if name = ''Post'' then VID p
                        else VNil) \<rparr>"

definition selectionDoc :: "ID \<Rightarrow> string \<Rightarrow> ID list \<Rightarrow> model" where
  "selectionDoc i name ps = \<lparr> DocID = i, Lock = 0,
     Values = (\<lambda>n. if n = ''Name'' then VStr name
                     else if n = ''Posts'' then VIDs ps
                     else VNil) \<rparr>"

definition exampleWorld :: world where
  "exampleWorld = \<lparr>
     Colls = (\<lambda>coll. if coll = ''posts''
                       then [postDoc 1 ''Hello'' ''c1'' ''u1'', postDoc 2 ''World'' ''c2'' ''u2'',
                             postDoc 3 ''Third'' ''c3'' ''u3'']
                       else if coll = ''notes'' then [noteDoc 11 ''first'' 1, noteDoc 12 ''second'' 2]
                       else if coll = ''selections'' then [selectionDoc 21 ''picks'' [1, 2]]
                       else []),
     Unique = [], Supply = (\<lambda>n. 100 + n), Used = 0, Now = 7 \<rparr>"

definition exampleRequest :: "intent \<Rightarrow> string \<Rightarrow> string \<Rightarrow> request" where
  "exampleRequest i resourceType resourceID = \<lparr> Intent = i, Prefix = [],
     ResourceType = resourceType, ResourceID = resourceID, RelatedResource = [],
     Relationship = [], ReqCollectionAction = [], ReqResourceAction = [],
     PageNumber = 0, PageSize = 0, ReqSorting = [], ReqFields = [], ReqFilters = [] \<rparr>"

text \<open>
  The context with which \<open>handle\<close> enters an operation of a controller: the fields
  of the descriptor are readable and writable, and a transaction is open.
\<close>

definition exampleContext :: "operation \<Rightarrow> string list \<Rightarrow> request \<Rightarrow> document option \<Rightarrow> Context" where
  "exampleContext opn names req doc = \<lparr> Operation = opn, Selector = [], Filters = [],
     Sorting = [], ReadableFields = names, WritableFields = names,
     RelationshipFilters = [], Model = None, Models = [], Original = None,
     JSONAPIRequest = req, Request = doc, Response = None, ResponseCode = 0,
     WrittenHeader = None, HasTransaction = True \<rparr>"

definition postFields :: "string list" where
  "postFields = [''Title'', ''CreateToken'', ''UpdateToken'', ''Note'']"

text \<open>The hexadecimal form of the ids 1, 2 and 3 of the example posts.\<close>

definition hex1 :: string where "hex1 = ''000000000000000000000001''"
definition hex2 :: string where "hex2 = ''000000000000000000000002''"
definition hex3 :: string where "hex3 = ''000000000000000000000003''"

definition pageContext :: Context where
  "pageContext = exampleContext List postFields
     ((exampleRequest ListResources ''posts'' [])\<lparr>PageNumber := 1, PageSize := 2\<rparr>) None"

text \<open>The status with which a step aborts, if it aborts.\<close>

definition abortStatus :: "(err + 'a) \<times> world \<Rightarrow> nat option" where
  "abortStatus r = (case fst r of Inl e \<Rightarrow> Some (statusOf e) | Inr x \<Rightarrow> None)"

definition consistentPosts :: controller where
  "consistentPosts = postsController\<lparr>ConsistentUpdate := True\<rparr>"

definition selectionRequest :: "intent \<Rightarrow> request" where
  "selectionRequest i = (exampleRequest i ''selections'' ''000000000000000000000015'')
     \<lparr>Relationship := ''posts''\<rparr>"

definition references :: "string \<Rightarrow> string list \<Rightarrow> document" where
  "references relType ids =
     Document (Some (Hybrid None (map (\<lambda>i. Resource relType i [] []) ids))) None"

definition relationshipContext :: "intent \<Rightarrow> string list \<Rightarrow> Context" where
  "relationshipContext i ids =
     exampleContext Update [''Name'', ''Posts''] (selectionRequest i)
       (Some (references ''posts'' ids))"

definition unknownRelationshipContext :: Context where
  "unknownRelationshipContext =
     exampleContext Find postFields
       ((exampleRequest GetRelationship ''posts'' hex1)\<lparr>Relationship := ''authors''\<rparr>) None"

definition unknownActionContext :: Context where
  "unknownActionContext =
     exampleContext CollectionAction postFields
       ((exampleRequest JCollectionAction ''posts'' [])\<lparr>ReqCollectionAction := ''publish'',
                                                       ReqResourceAction := ''publish''\<rparr>) None"

definition noteRelationshipContext :: "intent \<Rightarrow> Context" where
  "noteRelationshipContext i =
     exampleContext Update postFields
       ((exampleRequest i ''posts'' hex1)\<lparr>Relationship := ''note''\<rparr>)
       (Some (references ''notes'' [''00000000000000000000000b'']))"

definition postsField :: field where
  "postsField = plainField\<lparr>Name := ''Posts'', Kind := KIDs, BSONField := ''post_ids'', ToMany := True,
                   RelName := ''posts'', RelType := ''posts''\<rparr>"

definition softPosts :: controller where
  "softPosts = postsController\<lparr>SoftDelete := True\<rparr>"

definition deleteContext :: Context where
  "deleteContext = exampleContext Delete postFields (exampleRequest DeleteResource ''posts'' hex1) None"

definition noteField :: field where
  "noteField = plainField\<lparr>Name := ''Note'', Kind := KHas, HasOne := True, RelName := ''note'',
                   RelType := ''notes'', RelInverse := ''post''\<rparr>"

definition postField :: field where
  "postField = plainField\<lparr>Name := ''Post'', Kind := KID, BSONField := ''post_id'', ToOne := True,
                   RelName := ''post'', RelType := ''posts''\<rparr>"

text \<open>A store in which two notes belong to the first post.\<close>

definition twoNotesWorld :: world where
  "twoNotesWorld = exampleWorld\<lparr>Colls := (Colls exampleWorld)
     (''notes'' := [noteDoc 11 ''first'' 1, noteDoc 13 ''other'' 1])\<rparr>"

definition relatedContext :: Context where
  "relatedContext = exampleContext Find postFields
     ((exampleRequest GetRelatedResources ''posts'' hex1)\<lparr>RelatedResource := ''note''\<rparr>) None"

definition relatedOwner :: "(err + Context) \<times> world" where
  "relatedOwner = loadModel postsController relatedContext twoNotesWorld"

definition relatedNotes :: "(err + Context) \<times> world" where
  "relatedNotes = handleWith listResources notesController exampleGroup
     (subContext (projr (fst relatedOwner))
        ((JSONAPIRequest (projr (fst relatedOwner)))\<lparr>Intent := ListResources,
            ResourceType := ''notes'', ResourceID := [], RelatedResource := []\<rparr>))
     (Some [(''post_id'', Eq (VID 1))]) (snd relatedOwner)"

section \<open>Properties\<close>

subsection \<open>Sequencing\<close>

lemma andThen_ok [simp]: "andThen (ok x) g = g x"
  by (rule ext) (simp add: andThen_def ok_def)

lemma andThen_abort [simp]: "andThen (abort e) g = abort e"
  by (rule ext) (simp add: andThen_def abort_def)

lemma andThen_abortIf_Inr [simp]: "andThen (abortIf (Inr x)) g = g x"
  by (rule ext) (simp add: andThen_def abortIf_def)

lemma andThen_abortIf_Inl [simp]: "andThen (abortIf (Inl e)) g = abort e"
  by (rule ext) (simp add: andThen_def abortIf_def abort_def)

lemma abortIf_Inl [simp]: "abortIf (Inl e) = abort e"
  by (rule ext) (simp add: abortIf_def abort_def)

lemma abortIf_Inr [simp]: "abortIf (Inr x) = ok x"
  by (rule ext) (simp add: abortIf_def ok_def)

lemma andThen_apply_Inr: "f w = (Inr x, w') \<Longrightarrow> andThen f g w = g x w'"
  by (simp add: andThen_def)

lemma andThen_apply_Inl: "f w = (Inl e, w') \<Longrightarrow> andThen f g w = (Inl e, w')"
  by (simp add: andThen_def)

lemma thenR_Inr [simp]: "thenR (Inr x) g = g x"
  by (simp add: thenR_def)

lemma thenR_Inl [simp]: "thenR (Inl e) g = Inl e"
  by (simp add: thenR_def)

lemma runCallbacks_quiet: "quiet list \<Longrightarrow> runCallbacks list status ctx w = (Inr ctx, w)"
  by (induction list) (simp_all add: quiet_def)

lemma runCallbacks_Nil [simp]: "runCallbacks [] status ctx = ok ctx"
  by (rule ext) (simp add: ok_def)

subsection \<open>Pagination\<close>

lemma lastPage_bounds:
  assumes "0 < S"
  shows "(lastPage N S - 1) * S < N \<and> N \<le> lastPage N S * S"
proof -
  have S: "0 < real_of_int S" using assms by simp
  have a: "real_of_int (lastPage N S) - 1 < real_of_int N / real_of_int S"
    and b: "real_of_int N / real_of_int S \<le> real_of_int (lastPage N S)"
    unfolding lastPage_def by linarith+
  from a S have "(real_of_int (lastPage N S) - 1) * real_of_int S < real_of_int N"
    by (simp add: pos_less_divide_eq)
  then have 1: "(lastPage N S - 1) * S < N"
    by (metis of_int_1 of_int_diff of_int_less_iff of_int_mult)
  from b S have "real_of_int N \<le> real_of_int (lastPage N S) * real_of_int S"
    by (simp add: pos_divide_le_eq)
  then have 2: "N \<le> lastPage N S * S"
    by (metis of_int_le_iff of_int_mult)
  from 1 2 show ?thesis by simp
qed

lemma lastPage_div:
  assumes "0 < S"
  shows "lastPage N S = (N + S - 1) div S"
proof -
  define r where "r = N + S - 1 - lastPage N S * S"
  from lastPage_bounds[OF assms, of N]
  have "0 \<le> r" and "r < S"
    by (simp_all add: r_def algebra_simps)
  moreover have "N + S - 1 = r + lastPage N S * S"
    by (simp add: r_def)
  ultimately have "(N + S - 1) div S = r div S + lastPage N S"
    using assms by simp
  with \<open>0 \<le> r\<close> \<open>r < S\<close> show ?thesis by simp
qed

lemma pageLink_nonempty: "pageLink self n s \<noteq> []"
  by (simp add: pageLink_def)

lemma andThen_read [simp]: "andThen (\<lambda>w. (Inr (f w), w)) g = (\<lambda>w. g (f w) w)"
  by (rule ext) (simp add: andThen_def)

lemma Count_matching:
  "db (Manager_Count (Meta c) True (Query ctx) 0 0 False)
     = (\<lambda>w. (Inr (matchingCount c ctx w), w))"
  by (rule ext)
     (simp add: db_def Manager_Count_def collCountDocuments_def window_def matchingCount_def)

text \<open>
  C9.  For a list request with a positive page number and a positive page size S
  over N matching documents, the last page is the ceiling of N / S (the least L
  with N \<le> L * S, which is (N + S - 1) div S), the previous link is present
  exactly when the page number is greater than 1, and the next link is present
  exactly when the page number is less than the last page.
\<close>

theorem listLinks_pagination:
  assumes "0 < PageNumber (JSONAPIRequest ctx)"
      and "0 < PageSize (JSONAPIRequest ctx)"
      and "HasTransaction ctx"
  shows "\<exists>lnks. listLinks c self ctx w = (Inr lnks, w)
           \<and> Last lnks = pageLink self
                (lastPage (matchingCount c ctx w) (PageSize (JSONAPIRequest ctx)))
                (PageSize (JSONAPIRequest ctx))
           \<and> lastPage (matchingCount c ctx w) (PageSize (JSONAPIRequest ctx))
               = \<lceil>real_of_int (matchingCount c ctx w) / real_of_int (PageSize (JSONAPIRequest ctx))\<rceil>
           \<and> lastPage (matchingCount c ctx w) (PageSize (JSONAPIRequest ctx))
               = (matchingCount c ctx w + PageSize (JSONAPIRequest ctx) - 1)
                   div PageSize (JSONAPIRequest ctx)
           \<and> (Previous lnks \<noteq> [] \<longleftrightarrow> 1 < PageNumber (JSONAPIRequest ctx))
           \<and> (Next lnks \<noteq> [] \<longleftrightarrow>
                PageNumber (JSONAPIRequest ctx)
                  < lastPage (matchingCount c ctx w) (PageSize (JSONAPIRequest ctx)))"
proof -
  let ?S = "PageSize (JSONAPIRequest ctx)"
  let ?N = "matchingCount c ctx w"
  have run: "listLinks c self ctx w =
      (Inr (noLinks\<lparr>
              Self := pageLink self (PageNumber (JSONAPIRequest ctx)) ?S,
              First := pageLink self 1 ?S,
              Last := pageLink self (lastPage ?N ?S) ?S,
              Previous := (if PageNumber (JSONAPIRequest ctx) > 1
                           then pageLink self (PageNumber (JSONAPIRequest ctx) - 1) ?S else []),
              Next := (if PageNumber (JSONAPIRequest ctx) < lastPage ?N ?S
                       then pageLink self (PageNumber (JSONAPIRequest ctx) + 1) ?S else [])\<rparr>), w)"
    using assms
    by (simp add: listLinks_def Let_def Count_matching ok_def)
  have div: "lastPage ?N ?S = (?N + ?S - 1) div ?S"
    using assms(2) by (rule lastPage_div)
  show ?thesis
    unfolding run using div
    by (simp add: pageLink_nonempty lastPage_def)
qed

theorem listLinks_pagination_witness:
  "0 < PageNumber (JSONAPIRequest pageContext)
   \<and> 0 < PageSize (JSONAPIRequest pageContext)
   \<and> HasTransaction pageContext
   \<and> (\<exists>lnks. listLinks postsController ''/posts'' pageContext exampleWorld = (Inr lnks, exampleWorld)
         \<and> lastPage (matchingCount postsController pageContext exampleWorld) 2 = 2
         \<and> Previous lnks = []
         \<and> Next lnks \<noteq> [])"
proof -
  have h1: "0 < PageNumber (JSONAPIRequest pageContext)"
    and h2: "0 < PageSize (JSONAPIRequest pageContext)"
    and h3: "HasTransaction pageContext"
    by (simp_all add: pageContext_def exampleContext_def exampleRequest_def)
  have n: "matchingCount postsController pageContext exampleWorld = 3"
    by (simp add: matchingCount_def pageContext_def exampleContext_def exampleWorld_def
        postsController_def plainController_def postMeta_def Query_def matches_def matchesM_def)
  have s: "PageSize (JSONAPIRequest pageContext) = 2" "PageNumber (JSONAPIRequest pageContext) = 1"
    by (simp_all add: pageContext_def exampleContext_def exampleRequest_def)
  from listLinks_pagination[OF h1 h2 h3, of postsController "''/posts''" exampleWorld]
  show ?thesis using h1 h2 h3 unfolding n s by auto
qed

text \<open>
  C5 (as amended).  With ConsistentUpdate enabled, a relationship-set, a
  relationship-append and a relationship-remove request abort at once with the
  status 405 (method not allowed) and the detail that partial updates are not
  allowed; nothing is loaded and the store is as it was.
\<close>

theorem partial_update_rejected:
  assumes "ConsistentUpdate c"
  shows "setRelationship c g ctx w =
           (Inl (JSONAPIError 405 ''partial updates not allowed with consistent updates''), w)
       \<and> appendToRelationship c g ctx w =
           (Inl (JSONAPIError 405 ''partial updates not allowed with consistent updates''), w)
       \<and> removeFromRelationship c g ctx w =
           (Inl (JSONAPIError 405 ''partial updates not allowed with consistent updates''), w)"
  using assms
  by (simp add: setRelationship_def appendToRelationship_def removeFromRelationship_def
      abort_def ErrorFromStatus_def StatusMethodNotAllowed_def)

theorem partial_update_rejected_witness:
  "ConsistentUpdate consistentPosts
   \<and> setRelationship consistentPosts exampleGroup (noteRelationshipContext SetRelationship) exampleWorld =
       (Inl (JSONAPIError 405 ''partial updates not allowed with consistent updates''), exampleWorld)
   \<and> appendToRelationship consistentPosts exampleGroup (noteRelationshipContext AppendToRelationship) exampleWorld =
       (Inl (JSONAPIError 405 ''partial updates not allowed with consistent updates''), exampleWorld)
   \<and> removeFromRelationship consistentPosts exampleGroup (noteRelationshipContext RemoveFromRelationship) exampleWorld =
       (Inl (JSONAPIError 405 ''partial updates not allowed with consistent updates''), exampleWorld)"
proof -
  have h: "ConsistentUpdate consistentPosts"
    by (simp add: consistentPosts_def)
  from partial_update_rejected[OF h, of exampleGroup "noteRelationshipContext SetRelationship" exampleWorld]
       partial_update_rejected[OF h, of exampleGroup "noteRelationshipContext AppendToRelationship" exampleWorld]
       partial_update_rejected[OF h, of exampleGroup "noteRelationshipContext RemoveFromRelationship" exampleWorld]
  show ?thesis using h by simp
qed

theorem partial_update_conflict_counterexample:
  "abortStatus (setRelationship consistentPosts exampleGroup
                  (noteRelationshipContext SetRelationship) exampleWorld) = Some 405
   \<and> abortStatus (setRelationship consistentPosts exampleGroup
                  (noteRelationshipContext SetRelationship) exampleWorld) \<noteq> Some StatusConflict"
  by (simp add: abortStatus_def setRelationship_def consistentPosts_def abort_def
      ErrorFromStatus_def StatusMethodNotAllowed_def StatusConflict_def)

text \<open>
  C4 (as amended).  A relationship-get request that names an unknown relationship
  aborts with the status 400 (bad request, "invalid relationship"); a collection
  or resource action request whose name has no registered action aborts with a
  plain error, which is reported as an internal failure.  Nothing is loaded in
  either case.
\<close>

theorem unknown_relationship_or_action:
  shows "(Relationships (Meta c) (Relationship (JSONAPIRequest ctx)) = None \<longrightarrow>
            getRelationship c g ctx w = (Inl (JSONAPIError 400 ''invalid relationship''), w))
       \<and> (map_of (CollectionActions c) (ReqCollectionAction (JSONAPIRequest ctx)) = None \<longrightarrow>
            handleCollectionAction c g ctx w =
              (Inl (GoError ''missing collection action callback''), w))
       \<and> (map_of (ResourceActions c) (ReqResourceAction (JSONAPIRequest ctx)) = None \<longrightarrow>
            handleResourceAction c g ctx w =
              (Inl (GoError ''missing resource action callback''), w))"
  by (simp add: getRelationship_def handleCollectionAction_def handleResourceAction_def
      abort_def BadRequest_def)

theorem unknown_relationship_or_action_witness:
  "Relationships (Meta postsController) (Relationship (JSONAPIRequest unknownRelationshipContext)) = None
   \<and> map_of (CollectionActions postsController)
        (ReqCollectionAction (JSONAPIRequest unknownActionContext)) = None
   \<and> map_of (ResourceActions postsController)
        (ReqResourceAction (JSONAPIRequest unknownActionContext)) = None
   \<and> getRelationship postsController exampleGroup unknownRelationshipContext exampleWorld =
        (Inl (JSONAPIError 400 ''invalid relationship''), exampleWorld)
   \<and> handleCollectionAction postsController exampleGroup unknownActionContext exampleWorld =
        (Inl (GoError ''missing collection action callback''), exampleWorld)
   \<and> handleResourceAction postsController exampleGroup unknownActionContext exampleWorld =
        (Inl (GoError ''missing resource action callback''), exampleWorld)"
proof -
  have h1: "Relationships (Meta postsController)
              (Relationship (JSONAPIRequest unknownRelationshipContext)) = None"
    by (simp add: Relationships_def postsController_def plainController_def postMeta_def
        plainField_def unknownRelationshipContext_def exampleContext_def exampleRequest_def)
  have h2: "map_of (CollectionActions postsController)
              (ReqCollectionAction (JSONAPIRequest unknownActionContext)) = None"
    and h3: "map_of (ResourceActions postsController)
              (ReqResourceAction (JSONAPIRequest unknownActionContext)) = None"
    by (simp_all add: postsController_def plainController_def)
  from unknown_relationship_or_action[of postsController unknownRelationshipContext exampleGroup exampleWorld]
       unknown_relationship_or_action[of postsController unknownActionContext exampleGroup exampleWorld]
  show ?thesis using h1 h2 h3 by simp
qed

theorem unknown_relationship_not_found_counterexample:
  "abortStatus (getRelationship postsController exampleGroup unknownRelationshipContext exampleWorld)
     = Some 400
   \<and> abortStatus (handleCollectionAction postsController exampleGroup unknownActionContext exampleWorld)
     = Some 500
   \<and> abortStatus (getRelationship postsController exampleGroup unknownRelationshipContext exampleWorld)
     \<noteq> Some 404"
  by (simp add: abortStatus_def getRelationship_def handleCollectionAction_def abort_def
      BadRequest_def Relationships_def postsController_def plainController_def postMeta_def
      plainField_def unknownRelationshipContext_def unknownActionContext_def
      exampleContext_def exampleRequest_def)

lemma mark_absent: "X \<notin> set ids \<Longrightarrow> mark X ids i pos = pos"
  by (induction ids arbitrary: i pos) auto

text \<open>
  C7.  For a to-many relationship and a reference whose id parses to X: appending
  X when it is already in the id list leaves the model unchanged, appending it
  twice is appending it once, removing X when it is not in the id list leaves the
  model unchanged, and neither loop fails.
\<close>

theorem to_many_idempotent:
  assumes "Fields mt (Name rel) = Some f" and "Kind f = KIDs"
      and "Values m (Name rel) = VIDs ids"
      and "ResType ref = RelType rel" and "FromHex (ResID ref) = Some X"
  shows "(X \<in> set ids \<longrightarrow> appendReferences mt rel [ref] m = Inr m)
       \<and> (X \<notin> set ids \<longrightarrow>
            appendReferences mt rel [ref] m = Inr (m\<lparr>Values := (Values m)(Name rel := VIDs (ids @ [X]))\<rparr>))
       \<and> appendReferences mt rel [ref, ref] m = appendReferences mt rel [ref] m
       \<and> (X \<notin> set ids \<longrightarrow> removeReferences mt rel [ref] m = Inr m)
       \<and> (\<exists>m'. removeReferences mt rel [ref] m = Inr m')"
  using assms
  by (auto simp add: MustGet_def MustSet_def asIDs_def ContainsID_def mark_absent Let_def)

theorem to_many_idempotent_witness:
  "Fields selectionMeta (Name postsField) = Some postsField
   \<and> Kind postsField = KIDs
   \<and> Values (selectionDoc 21 ''picks'' [1, 2]) (Name postsField) = VIDs [1, 2]
   \<and> ResType (Resource ''posts'' hex1 [] []) = RelType postsField
   \<and> FromHex (ResID (Resource ''posts'' hex1 [] [])) = Some 1
   \<and> FromHex (ResID (Resource ''posts'' hex3 [] [])) = Some 3
   \<and> appendReferences selectionMeta postsField [Resource ''posts'' hex1 [] []]
        (selectionDoc 21 ''picks'' [1, 2]) = Inr (selectionDoc 21 ''picks'' [1, 2])
   \<and> appendReferences selectionMeta postsField
        [Resource ''posts'' hex3 [] [], Resource ''posts'' hex3 [] []] (selectionDoc 21 ''picks'' [1, 2])
      = appendReferences selectionMeta postsField [Resource ''posts'' hex3 [] []]
          (selectionDoc 21 ''picks'' [1, 2])
   \<and> removeReferences selectionMeta postsField [Resource ''posts'' hex3 [] []]
        (selectionDoc 21 ''picks'' [1, 2]) = Inr (selectionDoc 21 ''picks'' [1, 2])"
proof -
  have h1: "Fields selectionMeta (Name postsField) = Some postsField"
    and h2: "Kind postsField = KIDs"
    and h3: "Values (selectionDoc 21 ''picks'' [1, 2]) (Name postsField) = VIDs [1, 2]"
    and h4: "ResType (Resource ''posts'' hex1 [] []) = RelType postsField"
    and h4': "ResType (Resource ''posts'' hex3 [] []) = RelType postsField"
    by (simp_all add: Fields_def selectionMeta_def postsField_def plainField_def selectionDoc_def)
  have h5: "FromHex (ResID (Resource ''posts'' hex1 [] [])) = Some 1"
    and h6: "FromHex (ResID (Resource ''posts'' hex3 [] [])) = Some 3"
    by (simp_all add: FromHex_def hex1_def hex3_def hexDigit_def)
  have present: "(1::nat) \<in> set [1, 2]" and absent: "(3::nat) \<notin> set [1, 2]"
    by simp_all
  from to_many_idempotent[OF h1 h2 h3 h4 h5] present
  have a: "appendReferences selectionMeta postsField [Resource ''posts'' hex1 [] []]
             (selectionDoc 21 ''picks'' [1, 2]) = Inr (selectionDoc 21 ''picks'' [1, 2])"
    by blast
  from to_many_idempotent[OF h1 h2 h3 h4' h6] absent
  have b: "appendReferences selectionMeta postsField
             [Resource ''posts'' hex3 [] [], Resource ''posts'' hex3 [] []] (selectionDoc 21 ''picks'' [1, 2])
           = appendReferences selectionMeta postsField [Resource ''posts'' hex3 [] []]
               (selectionDoc 21 ''picks'' [1, 2])"
    and c: "removeReferences selectionMeta postsField [Resource ''posts'' hex3 [] []]
              (selectionDoc 21 ''picks'' [1, 2]) = Inr (selectionDoc 21 ''picks'' [1, 2])"
    by blast+
  from h1 h2 h3 h4 h5 h6 a b c show ?thesis by blast
qed

subsection \<open>Loading\<close>

lemma runCallbacks_quiet_ok: "quiet list \<Longrightarrow> runCallbacks list status ctx = ok ctx"
  by (rule ext) (simp add: runCallbacks_quiet ok_def)

lemma set_insertDoc: "set (insertDoc mt srt d es) = insert d (set es)"
  by (induction es) auto

lemma set_sortDocs: "set (sortDocs mt srt docs) = set docs"
  by (induction docs) (simp_all add: sortDocs_def set_insertDoc)

lemma collFindOne_Some:
  assumes "collFindOne mt q srt skip w = Some d"
  shows "d \<in> set (Colls w (Collection mt)) \<and> matches mt q d"
proof -
  from assms have "d \<in> set (window skip 0 (sortDocs mt srt (filter (matches mt q) (Colls w (Collection mt)))))"
    by (auto simp add: collFindOne_def split: list.splits)
  then have "d \<in> set (sortDocs mt srt (filter (matches mt q) (Colls w (Collection mt))))"
    by (auto simp add: window_def dest: in_set_dropD split: if_splits)
  then show ?thesis by (simp add: set_sortDocs)
qed

text \<open>
  C6 (as amended).  For every Delete request the load of the existing entity takes
  the per-document lock, whether SoftDelete is enabled or not: it needs a
  transaction, the loaded model is the found document with its lock counter
  incremented, and so is the stored document.
\<close>

theorem delete_load_locks:
  assumes "Operation ctx = Delete" and "quiet (Authorizers c)"
      and "loadModel c ctx w = (Inr ctx', w')"
  shows "HasTransaction ctx
       \<and> (\<exists>d. d \<in> set (Colls w (Collection (Meta c)))
              \<and> Model ctx' = Some (incrementLock d)
              \<and> Colls w' = (Colls w)(Collection (Meta c) :=
                   updateFirst (\<lambda>e. DocID e = DocID d) incrementLock (Colls w (Collection (Meta c)))))"
proof -
  have W: "Write (Operation ctx)" using assms(1) by (simp add: Write_def)
  from assms(3) obtain ctx1 d where
    tx: "HasTransaction ctx" and
    found: "collFindOne (Meta c) (Query ctx1) [] 0 w = Some d" and
    res: "Model ctx' = Some (incrementLock d)" and
    w': "w' = w\<lparr>Colls := (Colls w)(Collection (Meta c) :=
            updateFirst (\<lambda>e. DocID e = DocID d) incrementLock (Colls w (Collection (Meta c))))\<rparr>"
    using W assms(2)
    by (auto simp add: loadModel_def runCallbacks_quiet_ok db_def Manager_FindFirst_def
        collFindOneAndLock_def andThen_def abortIf_def ok_def abort_def
        split: sum.splits option.splits if_splits prod.splits)
  from collFindOne_Some[OF found] res w' tx show ?thesis by auto
qed

lemmas example_defs =
  postsController_def notesController_def selectionsController_def plainController_def
  postMeta_def noteMeta_def selectionMeta_def plainField_def exampleGroup_def
  exampleWorld_def exampleContext_def exampleRequest_def postFields_def
  postDoc_def noteDoc_def selectionDoc_def hex1_def hex2_def hex3_def

lemmas eval_defs =
  Fields_def Attributes_def Relationships_def AttributeList_def RelationshipList_def
  L_def F_def MustGet_def MustSet_def asString_def asIDs_def asID_def asOptID_def
  FromHex_def IsHex_def MustFromHex_def hexDigit_def
  keyField_def docGet_def docSet_def docSets_def matches_def matchesM_def Query_def
  collFindOne_def collFindOneAndLock_def collFind_def collCountDocuments_def
  collInsertOne_def collUpsert_def collChangeOne_def collReplaceOne_def collUpdateOne_def
  collDeleteOne_def mergeQuery_def duplicate_def uniqueKeys_def incrementLock_def
  sortDocs_def window_def
  Manager_FindFirst_def Manager_FindAll_def Manager_Count_def Manager_Insert_def
  Manager_InsertIfMissing_def Manager_Replace_def Manager_ReplaceFirst_def
  Manager_Update_def Manager_Delete_def New_def
  db_def abortIfDuplicate_def IsDuplicate_def theModel_def
  andThen_def ok_def abort_def abortIf_def thenR_def
  Read_def Write_def Action_def Contains_def ContainsID_def Intersect_def
  BadRequest_def BadRequestPointer_def NotFound_def ErrorFromStatus_def
  StatusOK_def StatusCreated_def StatusNoContent_def StatusBadRequest_def
  StatusUnauthorized_def StatusMethodNotAllowed_def StatusConflict_def
  StatusInternalServerError_def

theorem soft_delete_load_unlocked_counterexample:
  "SoftDelete softPosts \<and> Operation deleteContext = Delete
   \<and> map Lock (Colls exampleWorld ''posts'') = [0, 0, 0]
   \<and> map Lock (Colls (snd (loadModel softPosts deleteContext exampleWorld)) ''posts'') = [1, 0, 0]"
  by (simp add: loadModel_def softPosts_def deleteContext_def example_defs eval_defs)

theorem delete_load_locks_witness:
  "Operation deleteContext = Delete \<and> quiet (Authorizers softPosts)
   \<and> loadModel softPosts deleteContext exampleWorld
       = (Inr (projr (fst (loadModel softPosts deleteContext exampleWorld))),
          snd (loadModel softPosts deleteContext exampleWorld))
   \<and> HasTransaction deleteContext
   \<and> (\<exists>d. d \<in> set (Colls exampleWorld (Collection (Meta softPosts)))
          \<and> Model (projr (fst (loadModel softPosts deleteContext exampleWorld)))
              = Some (incrementLock d)
          \<and> Colls (snd (loadModel softPosts deleteContext exampleWorld))
              = (Colls exampleWorld)(Collection (Meta softPosts) :=
                  updateFirst (\<lambda>e. DocID e = DocID d) incrementLock
                    (Colls exampleWorld (Collection (Meta softPosts)))))"
proof -
  have h1: "Operation deleteContext = Delete"
    by (simp add: deleteContext_def exampleContext_def)
  have h2: "quiet (Authorizers softPosts)"
    by (simp add: quiet_def softPosts_def postsController_def plainController_def)
  have "\<not> isl (fst (loadModel softPosts deleteContext exampleWorld))"
    by (simp add: loadModel_def softPosts_def deleteContext_def example_defs eval_defs)
  then have h3: "loadModel softPosts deleteContext exampleWorld
       = (Inr (projr (fst (loadModel softPosts deleteContext exampleWorld))),
          snd (loadModel softPosts deleteContext exampleWorld))"
    by (metis prod.collapse sum.collapse(2))
  from delete_load_locks[OF h1 h2 h3] h1 h2 h3 show ?thesis by blast
qed

subsection \<open>Resource assembly\<close>

lemma fieldKeys_internal: "fieldKeys mt what flds wl = Inl e \<Longrightarrow> statusOf e = 500"
  by (induction flds arbitrary: wl) (auto split: option.splits)

lemma constructRelationship_internal:
  "constructRelationship c m rels base fld = Inl e \<Longrightarrow> statusOf e = 500"
  by (auto simp add: constructRelationship_def Let_def MustGet_def asOptID_def asID_def asIDs_def
      thenR_def split: if_splits option.splits sum.splits val.splits)

lemma constructRelationships_internal:
  "constructRelationships c m rels wl base flds docs = Inl e \<Longrightarrow> statusOf e = 500"
  by (induction flds arbitrary: docs)
     (auto split: if_splits sum.splits option.splits dest: constructRelationship_internal)

lemma constructResource_internal:
  "constructResource c ctx m rels = Inl e \<Longrightarrow> statusOf e = 500"
  by (auto simp add: constructResource_def thenR_def Let_def split: sum.splits
      dest: fieldKeys_internal constructRelationships_internal)

lemma constructRelationship_has_one:
  assumes "HasOne fld" and "\<not> ToOne fld" and "\<not> ToMany fld"
      and "1 < length (preloaded rels (RelName fld) (DocID m))"
  shows "constructRelationship c m (Some rels) base fld
           = Inl (GoError ''has one relationship returned more than one result'')"
  using assms by (simp add: constructRelationship_def Let_def)

lemma constructRelationships_has_one:
  assumes "fld \<in> set flds" and "HasOne fld" and "\<not> ToOne fld" and "\<not> ToMany fld"
      and "Contains wl (RelName fld)"
      and "1 < length (preloaded rels (RelName fld) (DocID m))"
  shows "\<exists>e. constructRelationships c m (Some rels) wl base flds docs = Inl e"
  using assms
proof (induction flds arbitrary: docs)
  case Nil
  then show ?case by simp
next
  case (Cons a flds)
  show ?case
  proof (cases "a = fld")
    case True
    with Cons.prems show ?thesis
      by (simp add: constructRelationship_has_one)
  next
    case False
    with Cons.prems have "fld \<in> set flds" by simp
    from Cons.IH[OF this Cons.prems(2-6)] show ?thesis
      by (auto split: sum.splits option.splits)
  qed
qed

lemma constructResource_has_one:
  assumes "fld \<in> set (RelationshipList (Meta c))"
      and "HasOne fld" and "\<not> ToOne fld" and "\<not> ToMany fld"
      and "fieldKeys (Meta c) ''readable'' (ReadableFields ctx) [] = Inr wl"
      and "Contains wl (RelName fld)"
      and "1 < length (preloaded rels (RelName fld) (DocID m))"
  shows "\<exists>e. constructResource c ctx m (Some rels) = Inl e \<and> statusOf e = 500"
proof -
  from constructRelationships_has_one[OF assms(1-4) assms(6,7)]
  obtain e where "constructRelationships c m (Some rels) wl
       ((if Prefix (JSONAPIRequest ctx) \<noteq> [] then ''/'' @ Prefix (JSONAPIRequest ctx) else [])
           @ ''/'' @ PluralName (Meta c) @ ''/'' @ Hex (DocID m))
       (RelationshipList (Meta c)) [] = Inl e"
    by blast
  then have "constructResource c ctx m (Some rels) = Inl e"
    using assms(5) by (simp add: constructResource_def Let_def)
  with constructResource_internal[of c ctx m "Some rels" e] show ?thesis by blast
qed

lemma pullOut_many:
  assumes "Response subCtx = Some doc" and "Data doc = Some h" and "1 < length (Many h)"
  shows "pullOut msg subCtx = Inl (GoError msg)"
  using assms by (simp add: pullOut_def)

lemma getRelatedResources_has_one:
  assumes "Relationships (Meta c) (RelatedResource (JSONAPIRequest ctx)) = Some rel"
      and "HasOne rel" and "\<not> ToOne rel" and "\<not> ToMany rel"
      and "loadModel c ctx w = (Inr ctx1, w1)"
      and "Contains (ReadableFields ctx1) (Name rel)"
      and "map_of g (RelType rel) = Some rc"
      and "Relationships (Meta rc) (RelInverse rel) = Some inverseRel"
      and "Model ctx1 = Some owner"
      and "handleWith listResources rc g
             (subContext ctx1 ((JSONAPIRequest ctx1)\<lparr>Intent := ListResources,
                 ResourceType := RelType rel, ResourceID := [], RelatedResource := []\<rparr>))
             (Some [(BSONField inverseRel, Eq (VID (DocID owner)))]) w1 = (Inr subCtx, w2)"
      and "Response subCtx = Some doc" and "Data doc = Some h" and "1 < length (Many h)"
  shows "getRelatedResources c g ctx w
           = (Inl (GoError ''has one relationship returned more than one result''), w2)"
  using assms
  by (simp add: getRelatedResources_def andThen_def theModel_def abortIf_def ok_def abort_def
      pullOut_many Let_def)

lemma relatedOwner_eval:
  "relatedOwner = (Inr (projr (fst relatedOwner)), snd relatedOwner)
   \<and> Model (projr (fst relatedOwner)) = Some ((postDoc 1 ''Hello'' ''c1'' ''u1''))
   \<and> ReadableFields (projr (fst relatedOwner)) = postFields
   \<and> HasTransaction (projr (fst relatedOwner))
   \<and> JSONAPIRequest (projr (fst relatedOwner)) = JSONAPIRequest relatedContext
   \<and> Colls (snd relatedOwner) ''notes'' = [noteDoc 11 ''first'' 1, noteDoc 13 ''other'' 1]"
  by (simp add: relatedOwner_def loadModel_def relatedContext_def twoNotesWorld_def
      example_defs eval_defs)

lemmas handler_defs =
  handleWith_def T_def initialFields_def DocumentExpected_def
  listResources_def loadModels_def int64_def
  preloadRelationships_def preloadRelationship_def
  constructResource_def constructRelationship_def StructToMap_def reference_def preloaded_def
  resourceForModel_def respondResource_def respondCreated_def listLinks_def SelfOf_def noLinks_def subContext_def one_def requestOne_def

lemma relatedNotes_eval:
  "relatedNotes = (Inr (projr (fst relatedNotes)), snd relatedNotes)
   \<and> Response (projr (fst relatedNotes)) = Some (the (Response (projr (fst relatedNotes))))
   \<and> Data (the (Response (projr (fst relatedNotes))))
       = Some (the (Data (the (Response (projr (fst relatedNotes))))))
   \<and> length (Many (the (Data (the (Response (projr (fst relatedNotes))))))) = 2"
  using relatedOwner_eval
  by (simp add: relatedNotes_def handler_defs relatedContext_def
      example_defs eval_defs)

text \<open>
  C8.  When the preloaded references of a readable has-one relationship hold two or
  more ids for the owner, the assembly of the resource aborts with an internal
  error; when the sub-request of a related-resources request on a has-one
  relationship returns two or more resources, the request aborts with the plain
  error "has one relationship returned more than one result", which is an internal
  error.  In neither case is one of the matches returned.
\<close>

theorem has_one_cardinality:
  assumes "fld \<in> set (RelationshipList (Meta c))"
      and "HasOne fld" and "\<not> ToOne fld" and "\<not> ToMany fld"
      and "fieldKeys (Meta c) ''readable'' (ReadableFields ctx) [] = Inr wl"
      and "Contains wl (RelName fld)"
      and "1 < length (preloaded rels (RelName fld) (DocID m))"
      and "Relationships (Meta c') (RelatedResource (JSONAPIRequest ctx')) = Some rel"
      and "HasOne rel" and "\<not> ToOne rel" and "\<not> ToMany rel"
      and "loadModel c' ctx' w = (Inr ctx1, w1)"
      and "Contains (ReadableFields ctx1) (Name rel)"
      and "map_of g (RelType rel) = Some rc"
      and "Relationships (Meta rc) (RelInverse rel) = Some inverseRel"
      and "Model ctx1 = Some owner"
      and "handleWith listResources rc g
             (subContext ctx1 ((JSONAPIRequest ctx1)\<lparr>Intent := ListResources,
                 ResourceType := RelType rel, ResourceID := [], RelatedResource := []\<rparr>))
             (Some [(BSONField inverseRel, Eq (VID (DocID owner)))]) w1 = (Inr subCtx, w2)"
      and "Response subCtx = Some doc" and "Data doc = Some h" and "1 < length (Many h)"
  shows "(\<exists>e. constructResource c ctx m (Some rels) = Inl e \<and> statusOf e = 500)
       \<and> getRelatedResources c' g ctx' w
           = (Inl (GoError ''has one relationship returned more than one result''), w2)
       \<and> abortStatus (getRelatedResources c' g ctx' w) = Some 500"
proof -
  have a: "\<exists>e. constructResource c ctx m (Some rels) = Inl e \<and> statusOf e = 500"
    using assms(1-7) by (rule constructResource_has_one)
  have b: "getRelatedResources c' g ctx' w
           = (Inl (GoError ''has one relationship returned more than one result''), w2)"
    using assms(8-20) by (rule getRelatedResources_has_one)
  from a b show ?thesis by (simp add: abortStatus_def)
qed

theorem has_one_cardinality_witness:
  "noteField \<in> set (RelationshipList (Meta postsController))
   \<and> HasOne noteField \<and> \<not> ToOne noteField \<and> \<not> ToMany noteField
   \<and> fieldKeys (Meta postsController) ''readable'' (ReadableFields relatedContext) []
       = Inr [''title'', ''create-token'', ''update-token'', ''note'']
   \<and> Contains [''title'', ''create-token'', ''update-token'', ''note''] (RelName noteField)
   \<and> 1 < length (preloaded [(''note'', [(1, [11, 13])])] (RelName noteField)
                   (DocID (postDoc 1 ''Hello'' ''c1'' ''u1'')))
   \<and> Relationships (Meta postsController) (RelatedResource (JSONAPIRequest relatedContext))
       = Some noteField
   \<and> loadModel postsController relatedContext twoNotesWorld
       = (Inr (projr (fst relatedOwner)), snd relatedOwner)
   \<and> Contains (ReadableFields (projr (fst relatedOwner))) (Name noteField)
   \<and> map_of exampleGroup (RelType noteField) = Some notesController
   \<and> Relationships (Meta notesController) (RelInverse noteField) = Some postField
   \<and> Model (projr (fst relatedOwner)) = Some (postDoc 1 ''Hello'' ''c1'' ''u1'')
   \<and> relatedNotes = (Inr (projr (fst relatedNotes)), snd relatedNotes)
   \<and> length (Many (the (Data (the (Response (projr (fst relatedNotes))))))) = 2
   \<and> (\<exists>e. constructResource postsController relatedContext (postDoc 1 ''Hello'' ''c1'' ''u1'')
              (Some [(''note'', [(1, [11, 13])])]) = Inl e \<and> statusOf e = 500)
   \<and> getRelatedResources postsController exampleGroup relatedContext twoNotesWorld
       = (Inl (GoError ''has one relationship returned more than one result''), snd relatedNotes)
   \<and> abortStatus (getRelatedResources postsController exampleGroup relatedContext twoNotesWorld)
       = Some 500"
proof -
  have h1: "noteField \<in> set (RelationshipList (Meta postsController))"
    and h2: "HasOne noteField" and h3: "\<not> ToOne noteField" and h4: "\<not> ToMany noteField"
    by (simp_all add: noteField_def RelationshipList_def example_defs)
  have h5: "fieldKeys (Meta postsController) ''readable'' (ReadableFields relatedContext) []
       = Inr [''title'', ''create-token'', ''update-token'', ''note'']"
    by (simp add: relatedContext_def example_defs Fields_def)
  have h6: "Contains [''title'', ''create-token'', ''update-token'', ''note''] (RelName noteField)"
    by (simp add: Contains_def noteField_def plainField_def)
  have h7: "1 < length (preloaded [(''note'', [(1, [11, 13])])] (RelName noteField)
                   (DocID (postDoc 1 ''Hello'' ''c1'' ''u1'')))"
    by (simp add: preloaded_def noteField_def plainField_def postDoc_def)
  have h8: "Relationships (Meta postsController) (RelatedResource (JSONAPIRequest relatedContext))
       = Some noteField"
    by (simp add: Relationships_def relatedContext_def noteField_def example_defs)
  have h12: "loadModel postsController relatedContext twoNotesWorld
       = (Inr (projr (fst relatedOwner)), snd relatedOwner)"
    using relatedOwner_eval by (simp add: relatedOwner_def)
  have h13: "Contains (ReadableFields (projr (fst relatedOwner))) (Name noteField)"
    using relatedOwner_eval by (simp add: Contains_def noteField_def plainField_def postFields_def)
  have h14: "map_of exampleGroup (RelType noteField) = Some notesController"
    by (simp add: exampleGroup_def noteField_def plainField_def)
  have h15: "Relationships (Meta notesController) (RelInverse noteField) = Some postField"
    by (simp add: Relationships_def noteField_def postField_def example_defs)
  have h16: "Model (projr (fst relatedOwner)) = Some (postDoc 1 ''Hello'' ''c1'' ''u1'')"
    using relatedOwner_eval by simp
  have req: "JSONAPIRequest (projr (fst relatedOwner)) = JSONAPIRequest relatedContext"
    using relatedOwner_eval by simp
  have h17: "handleWith listResources notesController exampleGroup
             (subContext (projr (fst relatedOwner))
                ((JSONAPIRequest (projr (fst relatedOwner)))\<lparr>Intent := ListResources,
                   ResourceType := RelType noteField, ResourceID := [], RelatedResource := []\<rparr>))
             (Some [(BSONField postField, Eq (VID (DocID (postDoc 1 ''Hello'' ''c1'' ''u1''))))])
             (snd relatedOwner) = (Inr (projr (fst relatedNotes)), snd relatedNotes)"
    using relatedNotes_eval
    by (simp add: relatedNotes_def noteField_def postField_def plainField_def postDoc_def)
  have h18: "Response (projr (fst relatedNotes)) = Some (the (Response (projr (fst relatedNotes))))"
    and h19: "Data (the (Response (projr (fst relatedNotes))))
       = Some (the (Data (the (Response (projr (fst relatedNotes))))))"
    and len: "length (Many (the (Data (the (Response (projr (fst relatedNotes))))))) = 2"
    using relatedNotes_eval by blast+
  from len have h20: "1 < length (Many (the (Data (the (Response (projr (fst relatedNotes)))))))"
    by simp
  have r: "relatedNotes = (Inr (projr (fst relatedNotes)), snd relatedNotes)"
    using relatedNotes_eval by blast
  from has_one_cardinality[OF h1 h2 h3 h4 h5 h6 h7 h8 h2 h3 h4 h12 h13 h14 h15 h16 h17 h18 h19 h20]
       h1 h2 h3 h4 h5 h6 h7 h8 h12 h13 h14 h15 h16 r len
  show ?thesis by blast
qed

subsection \<open>Assignment\<close>

lemma Fields_Some: "Fields mt name = Some f \<Longrightarrow> Name f = name \<and> f \<in> set (OrderedFields mt)"
  by (auto simp add: Fields_def find_Some_iff in_set_conv_nth)

lemma Attributes_Some:
  "Attributes mt key = Some f \<Longrightarrow> JSONKey f = key \<and> key \<noteq> [] \<and> f \<in> set (OrderedFields mt)"
  by (auto simp add: Attributes_def find_Some_iff in_set_conv_nth)

lemma Relationships_Some:
  "Relationships mt name = Some f \<Longrightarrow> RelName f = name \<and> name \<noteq> [] \<and> f \<in> set (OrderedFields mt)"
  by (auto simp add: Relationships_def find_Some_iff in_set_conv_nth)

lemma distinct_names_eq:
  assumes "distinct (map Name (OrderedFields mt))"
      and "f \<in> set (OrderedFields mt)" and "g \<in> set (OrderedFields mt)" and "Name f = Name g"
  shows "f = g"
  using assms by (meson distinct_map inj_onD)

lemma attribute_key_unique:
  assumes "distinct (map Name (OrderedFields mt))"
      and "Fields mt tf = Some f" and "Attributes mt key = Some f"
      and "Attributes mt k = Some g" and "Name g = tf"
  shows "k = key"
proof -
  from assms(2) have f: "Name f = tf" "f \<in> set (OrderedFields mt)" by (auto dest: Fields_Some)
  from assms(4) have g: "JSONKey g = k" "g \<in> set (OrderedFields mt)" by (auto dest: Attributes_Some)
  from distinct_names_eq[OF assms(1) f(2) g(2)] f(1) assms(5) have "f = g" by simp
  with assms(3) g(1) show ?thesis by (auto dest: Attributes_Some)
qed

lemma fieldKeys_mono:
  "fieldKeys mt what flds wl = Inr wl' \<Longrightarrow> set wl \<subseteq> set wl'"
proof (induction flds arbitrary: wl)
  case Nil
  then show ?case by simp
next
  case (Cons a flds)
  from Cons.prems obtain x where x: "Fields mt a = Some x"
    by (auto split: option.splits)
  let ?wl1 = "if JSONKey x \<noteq> [] then wl @ [JSONKey x]
              else if RelName x \<noteq> [] then wl @ [RelName x] else wl"
  from Cons.prems x have "fieldKeys mt what flds ?wl1 = Inr wl'" by simp
  from Cons.IH[OF this] show ?case by (auto split: if_splits)
qed

lemma fieldKeys_contains:
  assumes "fieldKeys mt what flds wl = Inr wl'" and "tf \<in> set flds"
      and "Fields mt tf = Some f" and "JSONKey f \<noteq> []"
  shows "JSONKey f \<in> set wl'"
  using assms
proof (induction flds arbitrary: wl)
  case Nil
  then show ?case by simp
next
  case (Cons a flds)
  show ?case
  proof (cases "a = tf")
    case True
    with Cons.prems have "fieldKeys mt what flds (wl @ [JSONKey f]) = Inr wl'" by simp
    from fieldKeys_mono[OF this] show ?thesis by auto
  next
    case False
    with Cons.prems show ?thesis
      by (auto split: option.splits if_splits intro: Cons.IH)
  qed
qed

lemma whitelistAttributes_map_of:
  assumes "whitelistAttributes c wl attrs acc = Inr as" and "distinct (map fst attrs)"
  shows "map_of as key =
           (case map_of attrs key of
              Some v \<Rightarrow> (if Contains wl key then Some v else map_of acc key)
            | None \<Rightarrow> map_of acc key)"
  using assms
proof (induction attrs arbitrary: acc)
  case Nil
  then show ?case by simp
next
  case (Cons a attrs)
  obtain n v where a: "a = (n, v)" by (cases a)
  from Cons.prems(2) a have d: "distinct (map fst attrs)" and n: "map_of attrs n = None"
    by (auto simp add: map_of_eq_None_iff)
  show ?case
  proof (cases "Contains wl n")
    case True
    with Cons.prems(1) a have "whitelistAttributes c wl attrs (AList.update n v acc) = Inr as"
      by (auto split: option.splits)
    from Cons.IH[OF this d] a n True show ?thesis
      by (auto simp add: update_conv' split: option.splits)
  next
    case False
    with Cons.prems(1) a have "whitelistAttributes c wl attrs acc = Inr as"
      by (auto split: option.splits if_splits)
    from Cons.IH[OF this d] a n False show ?thesis
      by (auto split: option.splits)
  qed
qed

lemma whitelistAttributes_distinct:
  "whitelistAttributes c wl attrs acc = Inr as \<Longrightarrow> distinct (map fst acc) \<Longrightarrow> distinct (map fst as)"
  by (induction attrs arbitrary: acc) (auto split: option.splits if_splits simp add: distinct_update)

lemma Assign_token:
  assumes "Assign mt as m = Inr m2" and "distinct (map fst as)"
      and "Attributes mt key = Some f" and "Name f = tf" and "Kind f = KString"
      and "\<And>k g. Attributes mt k = Some g \<Longrightarrow> Name g = tf \<Longrightarrow> k = key"
  shows "DocID m2 = DocID m \<and> Lock m2 = Lock m
       \<and> Values m2 tf = (case map_of as key of Some (VStr t) \<Rightarrow> VStr t | _ \<Rightarrow> Values m tf)"
  using assms(1,2)
proof (induction as arbitrary: m)
  case Nil
  then show ?case by simp
next
  case (Cons a as)
  obtain n v where a: "a = (n, v)" by (cases a)
  from Cons.prems(2) a have d: "distinct (map fst as)" and n: "map_of as n = None"
    by (auto simp add: map_of_eq_None_iff)
  show ?case
  proof (cases "n = key")
    case True
    with Cons.prems(1) a assms(3-5) consider
        (skip) "v = VNil" "Assign mt as m = Inr m2"
      | (set) t where "v = VStr t" "Assign mt as (m\<lparr>Values := (Values m)(tf := VStr t)\<rparr>) = Inr m2"
      by (cases v) (auto split: if_splits)
    then show ?thesis
    proof cases
      case skip
      from Cons.IH[OF skip(2) d] a True n skip(1) show ?thesis by simp
    next
      case set
      from Cons.IH[OF set(2) d] a True n set(1) show ?thesis by simp
    qed
  next
    case False
    show ?thesis
    proof (cases "Attributes mt n")
      case None
      with Cons.prems(1) a have "Assign mt as m = Inr m2" by simp
      from Cons.IH[OF this d] a False show ?thesis by simp
    next
      case (Some g)
      with assms(6)[of n g] False have ng: "Name g \<noteq> tf" by auto
      from Cons.prems(1) a Some consider
          (skip) "Assign mt as m = Inr m2"
        | (set) "Assign mt as (m\<lparr>Values := (Values m)(Name g := v)\<rparr>) = Inr m2"
        by (auto split: if_splits)
      then show ?thesis
      proof cases
        case skip
        from Cons.IH[OF skip d] a False show ?thesis by simp
      next
        case set
        from ng have "tf \<noteq> Name g" by auto
        with Cons.IH[OF set d] a False show ?thesis
          by (simp split: option.splits val.splits)
      qed
    qed
  qed
qed

lemma MustSet_keeps:
  assumes "MustSet mt m name v = Inr m'" and "Fields mt tf = Some f" and "Kind f = KString"
      and "\<forall>s. v \<noteq> VStr s"
  shows "DocID m' = DocID m \<and> Lock m' = Lock m \<and> Values m' tf = Values m tf"
proof (cases "name = tf")
  case True
  with assms show ?thesis
    by (cases v) (auto simp add: MustSet_def split: option.splits if_splits)
next
  case False
  with assms(1) show ?thesis
    by (auto simp add: MustSet_def split: option.splits if_splits)
qed

lemma MustSet_keeps_VID:
  "MustSet mt m name (VID i) = Inr m' \<Longrightarrow> Fields mt tf = Some f \<Longrightarrow> Kind f = KString
   \<Longrightarrow> DocID m' = DocID m \<and> Lock m' = Lock m \<and> Values m' tf = Values m tf"
  by (rule MustSet_keeps) auto

lemma MustSet_keeps_VNil:
  "MustSet mt m name VNil = Inr m' \<Longrightarrow> Fields mt tf = Some f \<Longrightarrow> Kind f = KString
   \<Longrightarrow> DocID m' = DocID m \<and> Lock m' = Lock m \<and> Values m' tf = Values m tf"
  by (rule MustSet_keeps) auto

lemma MustSet_keeps_VIDs:
  "MustSet mt m name (VIDs ids) = Inr m' \<Longrightarrow> Fields mt tf = Some f \<Longrightarrow> Kind f = KString
   \<Longrightarrow> DocID m' = DocID m \<and> Lock m' = Lock m \<and> Values m' tf = Values m tf"
  by (rule MustSet_keeps) auto

lemma context_Model_triv: "Model ctx = Some m \<Longrightarrow> ctx\<lparr>Model := Some m\<rparr> = ctx"
  by (cases ctx) simp

lemma keeps_refl:
  "Model ctx = Some m \<Longrightarrow>
   \<exists>m'. ctx = ctx\<lparr>Model := Some m'\<rparr> \<and> DocID m' = DocID m \<and> Lock m' = Lock m
        \<and> Values m' tf = Values m tf"
  by (rule exI[of _ m]) (simp add: context_Model_triv)

lemma assignRelationship_keeps:
  assumes "assignRelationship c ctx rel fld = Inr ctx'" and "Model ctx = Some m"
      and "Fields (Meta c) tf = Some f" and "Kind f = KString"
  shows "\<exists>m'. ctx' = ctx\<lparr>Model := Some m'\<rparr> \<and> DocID m' = DocID m \<and> Lock m' = Lock m
              \<and> Values m' tf = Values m tf"
  using assms(1,2)
  by (auto simp add: assignRelationship_def thenR_def theModel_def context_Model_triv
      split: sum.splits if_splits intro: keeps_refl
      dest!: MustSet_keeps_VID[OF _ assms(3,4)] MustSet_keeps_VNil[OF _ assms(3,4)]
             MustSet_keeps_VIDs[OF _ assms(3,4)])

lemma assignRelationships_keeps:
  assumes "assignRelationships c wl rels ctx = Inr ctx'" and "Model ctx = Some m"
      and "Fields (Meta c) tf = Some f" and "Kind f = KString"
  shows "\<exists>m'. ctx' = ctx\<lparr>Model := Some m'\<rparr> \<and> DocID m' = DocID m \<and> Lock m' = Lock m
              \<and> Values m' tf = Values m tf"
  using assms(1,2)
proof (induction rels arbitrary: ctx m)
  case Nil
  then show ?case by (cases ctx) auto
next
  case (Cons a rels)
  obtain name rel where a: "a = (name, rel)" by (cases a)
  from Cons.prems(1) a consider
      (skip) "assignRelationships c wl rels ctx = Inr ctx'"
    | (step) fld ctx1 where "assignRelationship c ctx rel fld = Inr ctx1"
        "assignRelationships c wl rels ctx1 = Inr ctx'"
    by (auto split: option.splits if_splits sum.splits)
  then show ?case
  proof cases
    case skip
    from Cons.IH[OF skip Cons.prems(2)] show ?thesis .
  next
    case step
    from assignRelationship_keeps[OF step(1) Cons.prems(2) assms(3,4)]
    obtain m1 where m1: "ctx1 = ctx\<lparr>Model := Some m1\<rparr>" "DocID m1 = DocID m"
      "Lock m1 = Lock m" "Values m1 tf = Values m tf" by blast
    then have "Model ctx1 = Some m1" by simp
    from Cons.IH[OF step(2) this] m1 show ?thesis by auto
  qed
qed

lemma assignData_token:
  assumes "assignData c ctx res = Inr ctx2" and "Model ctx = Some m"
      and "distinct (map fst (ResAttributes res))"
      and "distinct (map Name (OrderedFields (Meta c)))"
      and "Fields (Meta c) tf = Some f" and "Kind f = KString"
      and "Attributes (Meta c) key = Some f"
  shows "\<exists>m2 wl. ctx2 = ctx\<lparr>Model := Some m2\<rparr> \<and> DocID m2 = DocID m \<and> Lock m2 = Lock m
           \<and> fieldKeys (Meta c) ''writable'' (WritableFields ctx) [] = Inr wl
           \<and> Values m2 tf =
               (case map_of (ResAttributes res) key of
                  Some (VStr t) \<Rightarrow> (if Contains wl key then VStr t else Values m tf)
                | _ \<Rightarrow> Values m tf)"
proof -
  from assms(1,2) obtain wl as m1 where
    wl: "fieldKeys (Meta c) ''writable'' (WritableFields ctx) [] = Inr wl" and
    as: "whitelistAttributes c wl (ResAttributes res) [] = Inr as" and
    m1: "Assign (Meta c) as m = Inr m1" and
    rels: "assignRelationships c wl (ResRelationships res) (ctx\<lparr>Model := Some m1\<rparr>) = Inr ctx2"
    by (auto simp add: assignData_def thenR_def theModel_def split: sum.splits)
  from whitelistAttributes_distinct[OF as] have d: "distinct (map fst as)" by simp
  from Fields_Some[OF assms(5)] have nf: "Name f = tf" by simp
  have uniq: "\<And>k g. Attributes (Meta c) k = Some g \<Longrightarrow> Name g = tf \<Longrightarrow> k = key"
    using attribute_key_unique[OF assms(4,5,7)] by blast
  from Assign_token[OF m1 d assms(7) nf assms(6) uniq]
  have a1: "DocID m1 = DocID m" "Lock m1 = Lock m"
    "Values m1 tf = (case map_of as key of Some (VStr t) \<Rightarrow> VStr t | _ \<Rightarrow> Values m tf)"
    by auto
  have "Model (ctx\<lparr>Model := Some m1\<rparr>) = Some m1" by simp
  from assignRelationships_keeps[OF rels this assms(5,6)]
  obtain m2 where m2: "ctx2 = ctx\<lparr>Model := Some m2\<rparr>" "DocID m2 = DocID m1"
    "Lock m2 = Lock m1" "Values m2 tf = Values m1 tf" by auto
  from whitelistAttributes_map_of[OF as assms(3), of key]
  have "map_of as key = (case map_of (ResAttributes res) key of
              Some v \<Rightarrow> (if Contains wl key then Some v else None) | None \<Rightarrow> None)"
    by (simp split: option.splits)
  with a1(3) have "Values m1 tf =
               (case map_of (ResAttributes res) key of
                  Some (VStr t) \<Rightarrow> (if Contains wl key then VStr t else Values m tf)
                | _ \<Rightarrow> Values m tf)"
    by (auto split: option.splits val.splits)
  with m2 a1 wl show ?thesis by auto
qed

end
